theory Spec2Isabelle
  imports Complex_Main
begin

section \<open>Python values and float64 arithmetic\<close>

text \<open>
  The module \<^verbatim>\<open>anomalias.py\<close> computes on float64 values held in pandas columns and
  numpy scalars. A float is modelled as an exact real number or the special value
  \<^verbatim>\<open>nan\<close>: binary rounding and overflow are abstracted away, while the propagation of
  \<^verbatim>\<open>nan\<close> through arithmetic and the falsity of every comparison with \<^verbatim>\<open>nan\<close> are kept,
  because the batch path creates \<^verbatim>\<open>np.nan\<close> itself.

  Exact arithmetic identifies expressions that float64 separates: the event function
  computes the candidate's score as \<open>w * (a / d)\<close> and the historical scores as
  \<open>(w * a) / d\<close>, and it rounds the float product \<^verbatim>\<open>percentil * 100\<close>. Statements about
  the event percentile are therefore made on the function's own intermediate values,
  and the two orders of operation are rendered in binary64 in a section of their own.
\<close>

datatype pyfloat = NaN | Fin real

text \<open>
  What a caller can pass for a signal of the candidate event: \<^verbatim>\<open>None\<close>, a string, or a
  number.
\<close>

datatype pyval = PyNone | PyStr string | PyNum pyfloat

datatype pyerror = TypeError | KeyError string

fun fl_add :: "pyfloat \<Rightarrow> pyfloat \<Rightarrow> pyfloat" where
  "fl_add (Fin a) (Fin b) = Fin (a + b)"
| "fl_add _ _ = NaN"

fun fl_sub :: "pyfloat \<Rightarrow> pyfloat \<Rightarrow> pyfloat" where
  "fl_sub (Fin a) (Fin b) = Fin (a - b)"
| "fl_sub _ _ = NaN"

fun fl_mul :: "pyfloat \<Rightarrow> pyfloat \<Rightarrow> pyfloat" where
  "fl_mul (Fin a) (Fin b) = Fin (a * b)"
| "fl_mul _ _ = NaN"

text \<open>
  numpy divides a float by zero to an infinity (or to \<^verbatim>\<open>nan\<close> for \<^verbatim>\<open>0/0\<close>). The model
  has no infinities; the zero divisor is given its own branch, and the lemmas
  \<open>divisor_pos\<close> and \<open>batch_divisor_pos\<close> below show that the divisors of this
  module never reach it.
\<close>

fun fl_div :: "pyfloat \<Rightarrow> pyfloat \<Rightarrow> pyfloat" where
  "fl_div (Fin a) (Fin b) = (if b = 0 then NaN else Fin (a / b))"
| "fl_div _ _ = NaN"

fun fl_abs :: "pyfloat \<Rightarrow> pyfloat" where
  "fl_abs (Fin a) = Fin \<bar>a\<bar>"
| "fl_abs NaN = NaN"

text \<open>Comparisons: every comparison with \<^verbatim>\<open>nan\<close> is false.\<close>

fun fl_lt :: "pyfloat \<Rightarrow> pyfloat \<Rightarrow> bool" where
  "fl_lt (Fin a) (Fin b) = (a < b)"
| "fl_lt _ _ = False"

fun fl_gt :: "pyfloat \<Rightarrow> pyfloat \<Rightarrow> bool" where
  "fl_gt (Fin a) (Fin b) = (a > b)"
| "fl_gt _ _ = False"

text \<open>
  \<^verbatim>\<open>np.log1p\<close>: \<open>ln (1 + x)\<close> above \<open>-1\<close> and \<^verbatim>\<open>nan\<close> below it. At exactly \<open>-1\<close> numpy
  gives minus infinity, which the model has not; lemma \<open>score_raw_nonneg\<close> shows
  that the composite score never goes below \<open>0\<close>.
\<close>

fun log1p :: "pyfloat \<Rightarrow> pyfloat" where
  "log1p (Fin x) = (if - 1 < x then Fin (ln (1 + x)) else NaN)"
| "log1p NaN = NaN"

text \<open>
  \<^verbatim>\<open>round(x, 2)\<close> on a numpy float64 multiplies by 100, rounds to the nearest integer
  with ties to the even one, and divides by 100.
\<close>

definition rint :: "real \<Rightarrow> int" where
  "rint x =
     (let f = \<lfloor>x\<rfloor>; d = x - of_int f
      in if d < 1 / 2 then f
         else if 1 / 2 < d then f + 1
         else if even f then f else f + 1)"

definition round2 :: "real \<Rightarrow> real" where
  "round2 x = of_int (rint (x * 100)) / 100"

fun fl_round2 :: "pyfloat \<Rightarrow> pyfloat" where
  "fl_round2 (Fin x) = Fin (round2 x)"
| "fl_round2 NaN = NaN"

section \<open>The table of readings and the pandas statistics\<close>

text \<open>
  One row of \<^verbatim>\<open>df_global\<close> / \<^verbatim>\<open>df_ref\<close>, with the columns the module reads.
\<close>

record lectura =
  timestamp :: string
  hora :: int
  consumo_kwh :: pyfloat
  agua_litros :: pyfloat
  co2_kg :: pyfloat

type_synonym dataframe = "lectura list"

text \<open>pandas statistics skip \<^verbatim>\<open>nan\<close> entries.\<close>

fun dropna :: "pyfloat list \<Rightarrow> real list" where
  "dropna [] = []"
| "dropna (NaN # xs) = dropna xs"
| "dropna (Fin x # xs) = x # dropna xs"

text \<open>
  \<^verbatim>\<open>Series.median()\<close>: the middle value of the sorted non-missing entries, the mean of
  the two middle values for an even count, \<^verbatim>\<open>nan\<close> for none.
\<close>

definition median :: "pyfloat list \<Rightarrow> pyfloat" where
  "median serie =
     (let s = sort (dropna serie); n = length s
      in if n = 0 then NaN
         else if odd n then Fin (s ! (n div 2))
         else Fin ((s ! (n div 2 - 1) + s ! (n div 2)) / 2))"

text \<open>
  \<^verbatim>\<open>Series.quantile(q)\<close> with the default linear interpolation: the virtual index
  \<open>q * (n - 1)\<close> into the sorted non-missing entries, interpolated between its two
  neighbours; \<^verbatim>\<open>nan\<close> for an empty series.
\<close>

definition quantile :: "real \<Rightarrow> pyfloat list \<Rightarrow> pyfloat" where
  "quantile q serie =
     (let s = sort (dropna serie); n = length s
      in if n = 0 then NaN
         else let h = q * real (n - 1);
                  lo = nat \<lfloor>h\<rfloor>;
                  hi = min (lo + 1) (n - 1);
                  frac = h - real lo
              in Fin (s ! lo + (s ! hi - s ! lo) * frac))"

section \<open>Event path: \<^verbatim>\<open>detectar_anomalia_evento\<close>\<close>

text \<open>Values stored in the result dictionary.\<close>

datatype dval = DStr string | DNum pyfloat | DList "string list"

type_synonym resultado = "(string \<times> dval) list"

text \<open>String literals of the source that are not ASCII, as their UTF-8 bytes.\<close>

definition Critica :: string where
  "Critica = ''Cr'' @ [CHR 0xC3, CHR 0xAD] @ ''tica''"

definition mensaje_insuficiente :: string where
  "mensaje_insuficiente =
     ''No hay suficientes datos hist'' @ [CHR 0xC3, CHR 0xB3] @
     ''ricos para evaluar anomal'' @ [CHR 0xC3, CHR 0xAD] @ ''as.''"

definition causa_consumo :: string where
  "causa_consumo =
     ''consumo energ'' @ [CHR 0xC3, CHR 0xA9] @ ''tico inusualmente alto''"

definition causa_agua :: string where
  "causa_agua = ''consumo de agua fuera de lo normal''"

definition causa_co2 :: string where
  "causa_co2 = ''emisiones de CO'' @ [CHR 0xE2, CHR 0x82, CHR 0x82] @ '' elevadas''"

definition causa_combinada :: string where
  "causa_combinada =
     ''comportamiento combinado at'' @ [CHR 0xC3, CHR 0xAD] @ ''pico''"

text \<open>
  The nested function \<^verbatim>\<open>score_robusto(valor, serie)\<close>. The statistics of the series
  are computed first; the subtraction \<^verbatim>\<open>valor - med\<close> raises \<^verbatim>\<open>TypeError\<close> when
  \<^verbatim>\<open>valor\<close> is \<^verbatim>\<open>None\<close> or a string.
\<close>

definition score_robusto :: "pyval \<Rightarrow> pyfloat list \<Rightarrow> pyerror + pyfloat" where
  "score_robusto valor serie =
     (let med = median serie;
          iqr = fl_sub (quantile 0.75 serie) (quantile 0.25 serie)
      in case valor of
           PyNum v \<Rightarrow> Inr (fl_div (fl_abs (fl_sub v med)) (fl_add iqr (Fin 0.000001)))
         | _ \<Rightarrow> Inl TypeError)"

text \<open>\<^verbatim>\<open>contexto = df_ref[df_ref['hora'] == hora]\<close>\<close>

definition contexto_de :: "dataframe \<Rightarrow> int \<Rightarrow> dataframe" where
  "contexto_de df_ref h = filter (\<lambda>r. hora r = h) df_ref"

text \<open>\<^verbatim>\<open>score_raw = 0.4 * z_consumo + 0.35 * z_agua + 0.25 * z_co2\<close>\<close>

definition score_raw_de :: "pyfloat \<Rightarrow> pyfloat \<Rightarrow> pyfloat \<Rightarrow> pyfloat" where
  "score_raw_de z_consumo z_agua z_co2 =
     fl_add (fl_add (fl_mul (Fin 0.4) z_consumo) (fl_mul (Fin 0.35) z_agua))
            (fl_mul (Fin 0.25) z_co2)"

text \<open>
  One term of the vectorised expression \<^verbatim>\<open>scores_hist\<close>:
  \<^verbatim>\<open>w * abs(col - col.median()) / (col.quantile(0.75) - col.quantile(0.25) + 1e-6)\<close>,
  for the entry \<open>x\<close> of the column \<open>col\<close>.
\<close>

definition termino_hist :: "real \<Rightarrow> pyfloat list \<Rightarrow> pyfloat \<Rightarrow> pyfloat" where
  "termino_hist w col x =
     fl_div (fl_mul (Fin w) (fl_abs (fl_sub x (median col))))
            (fl_add (fl_sub (quantile 0.75 col) (quantile 0.25 col)) (Fin 0.000001))"

definition scores_hist :: "dataframe \<Rightarrow> pyfloat list" where
  "scores_hist contexto =
     map (\<lambda>r. fl_add
                 (fl_add (termino_hist 0.4 (map consumo_kwh contexto) (consumo_kwh r))
                         (termino_hist 0.35 (map agua_litros contexto) (agua_litros r)))
                 (termino_hist 0.25 (map co2_kg contexto) (co2_kg r)))
         contexto"

text \<open>
  \<^verbatim>\<open>percentil = (scores_hist < score_raw).mean()\<close>: the mean of a boolean column, that
  is the number of true entries over the number of entries.
\<close>

definition percentil_de :: "pyfloat list \<Rightarrow> pyfloat \<Rightarrow> real" where
  "percentil_de hist score_raw =
     real (length (filter (\<lambda>s. fl_lt s score_raw) hist)) / real (length hist)"

text \<open>The \<^verbatim>\<open>if / elif / else\<close> chain on \<^verbatim>\<open>percentil\<close> inside the event function.\<close>

definition nivel_evento :: "real \<Rightarrow> string" where
  "nivel_evento percentil =
     (if percentil < 0.90 then ''Normal''
      else if percentil < 0.97 then ''Alerta''
      else Critica)"

text \<open>The list \<^verbatim>\<open>causas\<close>, built by three appends and the fallback.\<close>

definition causas_de :: "pyfloat \<Rightarrow> pyfloat \<Rightarrow> pyfloat \<Rightarrow> string list" where
  "causas_de z_consumo z_agua z_co2 =
     (let causas = [];
          causas = (if fl_gt z_consumo (Fin 3) then causas @ [causa_consumo] else causas);
          causas = (if fl_gt z_agua (Fin 3) then causas @ [causa_agua] else causas);
          causas = (if fl_gt z_co2 (Fin 3) then causas @ [causa_co2] else causas)
      in if causas = [] then causas @ [causa_combinada] else causas)"

definition detectar_anomalia_evento ::
  "dataframe \<Rightarrow> string \<Rightarrow> int \<Rightarrow> pyval \<Rightarrow> pyval \<Rightarrow> pyval \<Rightarrow> pyerror + resultado" where
  "detectar_anomalia_evento df_ref ts h consumo agua co2 =
     (let contexto = contexto_de df_ref h
      in if length contexto < 50
         then Inr [(''nivel'', DStr ''Normal''), (''mensaje'', DStr mensaje_insuficiente)]
         else
           (case score_robusto consumo (map consumo_kwh contexto) of
              Inl e \<Rightarrow> Inl e
            | Inr z_consumo \<Rightarrow>
           (case score_robusto agua (map agua_litros contexto) of
              Inl e \<Rightarrow> Inl e
            | Inr z_agua \<Rightarrow>
           (case score_robusto co2 (map co2_kg contexto) of
              Inl e \<Rightarrow> Inl e
            | Inr z_co2 \<Rightarrow>
             let score_raw = score_raw_de z_consumo z_agua z_co2;
                 score_final = log1p score_raw;
                 percentil = percentil_de (scores_hist contexto) score_raw;
                 nivel = nivel_evento percentil;
                 causas = causas_de z_consumo z_agua z_co2
             in Inr [(''timestamp'', DStr ts),
                     (''nivel'', DStr nivel),
                     (''percentil'', DNum (Fin (round2 (percentil * 100)))),
                     (''score'', DNum (fl_round2 score_final)),
                     (''explicacion'', DList causas)]))))"

section \<open>The formatter \<^verbatim>\<open>respuesta_chatbot\<close>\<close>

text \<open>\<^verbatim>\<open>d[k]\<close> on a dictionary raises \<^verbatim>\<open>KeyError\<close> for an absent key.\<close>

definition getitem :: "resultado \<Rightarrow> string \<Rightarrow> pyerror + dval" where
  "getitem d k = (case map_of d k of None \<Rightarrow> Inl (KeyError k) | Some v \<Rightarrow> Inr v)"

fun join :: "string \<Rightarrow> string list \<Rightarrow> string" where
  "join sep [] = []"
| "join sep [x] = x"
| "join sep (x # y # ys) = x @ sep @ join sep (y # ys)"

text \<open>
  \<^verbatim>\<open>", ".join(v)\<close>: a list of strings is joined, a string is iterated character by
  character, a float is not iterable.
\<close>

definition join_causas :: "dval \<Rightarrow> pyerror + string" where
  "join_causas v =
     (case v of
        DList l \<Rightarrow> Inr (join '', '' l)
      | DStr s \<Rightarrow> Inr (join '', '' (map (\<lambda>c. [c]) s))
      | DNum _ \<Rightarrow> Inl TypeError)"

text \<open>
  The returned f-string is kept as its pieces: literal text, and the values
  interpolated into it (their conversion to text is not modelled).
\<close>

datatype pieza = Texto string | Valor dval

definition respuesta_chatbot :: "resultado \<Rightarrow> pyerror + pieza list" where
  "respuesta_chatbot resultado =
     (case getitem resultado ''nivel'' of
        Inl e \<Rightarrow> Inl e
      | Inr nivel \<Rightarrow>
          if nivel = DStr ''Normal'' then
            (case getitem resultado ''timestamp'' of
               Inl e \<Rightarrow> Inl e
             | Inr ts \<Rightarrow>
                 Inr [Texto ([CHR 0xE2, CHR 0x9C, CHR 0x85] @ '' El consumo registrado a las ''),
                      Valor ts,
                      Texto '' se encuentra dentro de los valores normales para esa hora.''])
          else
            (case getitem resultado ''explicacion'' of
               Inl e \<Rightarrow> Inl e
             | Inr ex \<Rightarrow>
            (case join_causas ex of
               Inl e \<Rightarrow> Inl e
             | Inr causas \<Rightarrow>
                 if nivel = DStr ''Alerta'' then
                   (case getitem resultado ''timestamp'' of
                      Inl e \<Rightarrow> Inl e
                    | Inr ts \<Rightarrow>
                   (case getitem resultado ''percentil'' of
                      Inl e \<Rightarrow> Inl e
                    | Inr p \<Rightarrow>
                        Inr [Texto ([CHR 0xE2, CHR 0x9A, CHR 0xA0, CHR 0xEF, CHR 0xB8, CHR 0x8F] @
                                    '' Atenci'' @ [CHR 0xC3, CHR 0xB3] @ ''n: el evento de las ''),
                             Valor ts,
                             Texto '' presenta un comportamiento inusual ('',
                             Texto causas,
                             Texto ''). Se encuentra en el percentil '',
                             Valor p,
                             Texto ''.'']))
                 else
                   (case getitem resultado ''timestamp'' of
                      Inl e \<Rightarrow> Inl e
                    | Inr ts \<Rightarrow>
                   (case getitem resultado ''percentil'' of
                      Inl e \<Rightarrow> Inl e
                    | Inr p \<Rightarrow>
                        Inr [Texto ([CHR 0xF0, CHR 0x9F, CHR 0x9A, CHR 0xA8] @ '' ALERTA CR'' @
                                    [CHR 0xC3, CHR 0x8D] @ ''TICA'' @ [CHR 0x0A] @
                                    ''El evento registrado a las ''),
                             Valor ts,
                             Texto ('' es altamente an'' @ [CHR 0xC3, CHR 0xB3] @ ''malo.'' @
                                    [CHR 0x0A] @ ''Motivos detectados: ''),
                             Texto causas,
                             Texto (''.'' @ [CHR 0x0A] @ ''Nivel de severidad: percentil ''),
                             Valor p,
                             Texto ''.''])))))"

section \<open>Batch path: the script over \<^verbatim>\<open>df_global\<close>\<close>

text \<open>\<^verbatim>\<open>.replace(0, np.nan)\<close> on a column of floats.\<close>

fun replace_0_nan :: "pyfloat \<Rightarrow> pyfloat" where
  "replace_0_nan (Fin x) = (if x = 0 then NaN else Fin x)"
| "replace_0_nan NaN = NaN"

text \<open>
  \<^verbatim>\<open>results.groupby('hora')[var]\<close> seen from one row: the column \<open>var\<close> of the rows
  that share its hour.
\<close>

definition grupo :: "(lectura \<Rightarrow> pyfloat) \<Rightarrow> dataframe \<Rightarrow> lectura \<Rightarrow> pyfloat list" where
  "grupo var results r = map var (filter (\<lambda>r'. hora r' = hora r) results)"

text \<open>
  The body of the \<^verbatim>\<open>for var in variables.keys()\<close> loop, for the row \<open>r\<close>: the value
  of the new column \<^verbatim>\<open>{var}_z\<close>.
\<close>

definition z_batch :: "(lectura \<Rightarrow> pyfloat) \<Rightarrow> dataframe \<Rightarrow> lectura \<Rightarrow> pyfloat" where
  "z_batch var results r =
     (let mediana = median (grupo var results r);
          q75 = quantile 0.75 (grupo var results r);
          q25 = quantile 0.25 (grupo var results r);
          iqr = replace_0_nan (fl_sub q75 q25)
      in fl_div (fl_abs (fl_sub (var r) mediana)) (fl_add iqr (Fin 0.000001)))"

definition anomalia_score_raw_de :: "dataframe \<Rightarrow> lectura \<Rightarrow> pyfloat" where
  "anomalia_score_raw_de results r =
     fl_add (fl_add (fl_mul (Fin 0.4) (z_batch consumo_kwh results r))
                    (fl_mul (Fin 0.35) (z_batch agua_litros results r)))
            (fl_mul (Fin 0.25) (z_batch co2_kg results r))"

definition anomalia_score_de :: "dataframe \<Rightarrow> lectura \<Rightarrow> pyfloat" where
  "anomalia_score_de results r = log1p (anomalia_score_raw_de results r)"

text \<open>
  \<^verbatim>\<open>rank(pct=True)\<close> inside a group, with the pandas defaults: tied values get the
  average of their ranks, \<^verbatim>\<open>nan\<close> keeps \<^verbatim>\<open>nan\<close>, and the rank is divided by the number
  of non-missing values of the group.
\<close>

definition rank_pct :: "pyfloat list \<Rightarrow> pyfloat \<Rightarrow> pyfloat" where
  "rank_pct grp v =
     (case v of
        NaN \<Rightarrow> NaN
      | Fin s \<Rightarrow>
          let xs = dropna grp;
              menores = length (filter (\<lambda>t. t < s) xs);
              iguales = length (filter (\<lambda>t. t = s) xs)
          in Fin ((real menores + (real iguales + 1) / 2) / real (length xs)))"

definition anomalia_percentil_de :: "dataframe \<Rightarrow> lectura \<Rightarrow> pyfloat" where
  "anomalia_percentil_de results r =
     rank_pct (grupo (anomalia_score_de results) results r) (anomalia_score_de results r)"

definition clasificar_anomalia :: "pyfloat \<Rightarrow> string" where
  "clasificar_anomalia p =
     (if fl_lt p (Fin 0.90) then ''Normal''
      else if fl_lt p (Fin 0.97) then ''Alerta''
      else Critica)"

text \<open>A row of \<^verbatim>\<open>results\<close> once the script has added its columns.\<close>

record fila = lectura +
  consumo_kwh_z :: pyfloat
  agua_litros_z :: pyfloat
  co2_kg_z :: pyfloat
  anomalia_score_raw :: pyfloat
  anomalia_score :: pyfloat
  anomalia_percentil :: pyfloat
  nivel_anomalia :: string

definition fila_de :: "dataframe \<Rightarrow> lectura \<Rightarrow> fila" where
  "fila_de results r =
     \<lparr>timestamp = timestamp r, hora = hora r, consumo_kwh = consumo_kwh r,
      agua_litros = agua_litros r, co2_kg = co2_kg r,
      consumo_kwh_z = z_batch consumo_kwh results r,
      agua_litros_z = z_batch agua_litros results r,
      co2_kg_z = z_batch co2_kg results r,
      anomalia_score_raw = anomalia_score_raw_de results r,
      anomalia_score = anomalia_score_de results r,
      anomalia_percentil = anomalia_percentil_de results r,
      nivel_anomalia = clasificar_anomalia (anomalia_percentil_de results r)\<rparr>"

definition batch :: "dataframe \<Rightarrow> fila list" where
  "batch df_global = map (fila_de df_global) df_global"

section \<open>The specification's formulas\<close>

text \<open>
  Section 4.1 of the specification: \<open>deviation = |v - median| / (iqr + \<epsilon>)\<close> with
  \<open>iqr = Q75 - Q25\<close> and \<open>\<epsilon> = 1e-6\<close>, for a value \<open>v\<close> and the population \<open>S\<close>.
\<close>

definition spec_deviation :: "pyfloat \<Rightarrow> pyfloat list \<Rightarrow> pyfloat" where
  "spec_deviation v S =
     fl_div (fl_abs (fl_sub v (median S)))
            (fl_add (fl_sub (quantile 0.75 S) (quantile 0.25 S)) (Fin 0.000001))"

text \<open>
  Section 4.2: \<open>raw_score = 0.40 * deviation_energy + 0.35 * deviation_water +
  0.25 * deviation_co2\<close>.
\<close>

definition spec_raw_score :: "pyfloat \<Rightarrow> pyfloat \<Rightarrow> pyfloat \<Rightarrow> pyfloat" where
  "spec_raw_score d_energy d_water d_co2 =
     fl_add (fl_add (fl_mul (Fin 0.40) d_energy) (fl_mul (Fin 0.35) d_water))
            (fl_mul (Fin 0.25) d_co2)"

text \<open>The raw score of the values \<open>e\<close>, \<open>w\<close>, \<open>c\<close> against the context \<open>ctx\<close>.\<close>

definition spec_raw_of :: "dataframe \<Rightarrow> pyfloat \<Rightarrow> pyfloat \<Rightarrow> pyfloat \<Rightarrow> pyfloat" where
  "spec_raw_of ctx e w c =
     spec_raw_score (spec_deviation e (map consumo_kwh ctx))
                    (spec_deviation w (map agua_litros ctx))
                    (spec_deviation c (map co2_kg ctx))"

text \<open>
  Section 4.3, event path: the fraction of the historical readings of the context
  whose raw score is strictly less than the candidate's raw score.
\<close>

definition spec_percentile :: "dataframe \<Rightarrow> pyfloat \<Rightarrow> real" where
  "spec_percentile ctx raw =
     real (length (filter (\<lambda>r. fl_lt (spec_raw_of ctx (consumo_kwh r) (agua_litros r) (co2_kg r)) raw)
                          ctx))
     / real (length ctx)"

text \<open>Section 4.3, the tier table.\<close>

definition spec_tier :: "real \<Rightarrow> string" where
  "spec_tier p =
     (if p < 0.90 then ''Normal''
      else if 0.90 \<le> p \<and> p < 0.97 then ''Alerta''
      else Critica)"

section \<open>Auxiliary notions and sample tables\<close>

text \<open>The interpolation step of \<open>quantile\<close> on a sorted list, at the virtual index \<open>h\<close>.\<close>

definition interp :: "real list \<Rightarrow> real \<Rightarrow> real" where
  "interp s h =
     (let lo = nat \<lfloor>h\<rfloor>; hi = min (lo + 1) (length s - 1); frac = h - real lo
      in s ! lo + (s ! hi - s ! lo) * frac)"

text \<open>
  Sample readings. At noon the low and the high reading give, in equal numbers, the
  population of the specification's end-to-end example: energy median 5000 and IQR
  500, water median 100000 and IQR 20000, CO2 median 900 and IQR 100.
\<close>

definition r_bajo :: lectura where
  "r_bajo = \<lparr>timestamp = ''2025-06-01 12:00'', hora = 12, consumo_kwh = Fin 4750,
             agua_litros = Fin 90000, co2_kg = Fin 850\<rparr>"

definition r_alto :: lectura where
  "r_alto = \<lparr>timestamp = ''2025-06-02 12:00'', hora = 12, consumo_kwh = Fin 5250,
             agua_litros = Fin 110000, co2_kg = Fin 950\<rparr>"

definition r_noche :: "real \<Rightarrow> real \<Rightarrow> real \<Rightarrow> lectura" where
  "r_noche e w c = \<lparr>timestamp = ''2025-06-02 03:00'', hora = 3, consumo_kwh = Fin e,
                   agua_litros = Fin w, co2_kg = Fin c\<rparr>"

definition tabla60 :: dataframe where
  "tabla60 = replicate 30 r_bajo @ [r_noche 1200 20000 300] @ replicate 30 r_alto"

definition tabla50 :: dataframe where
  "tabla50 = replicate 25 r_bajo @ [r_noche 1200 20000 300] @ replicate 25 r_alto"

definition tabla49 :: dataframe where
  "tabla49 = replicate 24 r_bajo @ [r_noche 1200 20000 300] @ replicate 25 r_alto"

text \<open>
  A night group of five readings whose energy column has no spread between its
  quartiles: four readings of 1200 kWh and one of 1500 kWh.
\<close>

definition tabla_plana :: dataframe where
  "tabla_plana =
     [r_noche 1200 20000 300, r_noche 1200 21000 310, r_noche 1200 22000 320,
      r_noche 1200 23000 330, r_noche 1500 24000 340]"

text \<open>Whether a candidate signal is a number (possibly \<^verbatim>\<open>nan\<close>).\<close>

fun es_numero :: "pyval \<Rightarrow> bool" where
  "es_numero (PyNum _) = True"
| "es_numero _ = False"

section \<open>The two score formulas in binary64 arithmetic\<close>

text \<open>
  The exact-real model above cannot tell \<open>w * (a / d)\<close> from \<open>(w * a) / d\<close>. The event
  function uses the first order for the candidate (\<^verbatim>\<open>score_robusto\<close>, then the
  weights) and the second for the historical rows (\<^verbatim>\<open>scores_hist\<close>), and float64
  rounds after every operation. This section renders exactly these two expressions
  with the rounding written out.

  \<open>rnd64\<close> is rounding to the nearest binary64 number, ties to the even significand:
  53 significant bits, the sign kept apart. Overflow and subnormal numbers are left
  out (the exponent is unbounded); the values below are far from both.
\<close>

definition rnd64 :: "real \<Rightarrow> real" where
  "rnd64 x =
     (if x = 0 then 0
      else let e = \<lfloor>log 2 \<bar>x\<bar>\<rfloor>; u = 2 powr (of_int e - 52)
           in sgn x * (of_int (rint (\<bar>x\<bar> / u)) * u))"

text \<open>
  \<^verbatim>\<open>abs(valor - med) / (iqr + 1e-6)\<close> with \<^verbatim>\<open>iqr = q75 - q25\<close>, for the statistics
  \<open>(med, q75, q25)\<close> of the column as pandas returned them. The literal \<^verbatim>\<open>1e-6\<close> is
  the binary64 number nearest to it; taking the absolute value is exact.
\<close>

fun score_robusto_f64 :: "real \<Rightarrow> real \<times> real \<times> real \<Rightarrow> real" where
  "score_robusto_f64 valor (med, q75, q25) =
     rnd64 (\<bar>rnd64 (valor - med)\<bar> / rnd64 (rnd64 (q75 - q25) + rnd64 0.000001))"

text \<open>\<^verbatim>\<open>0.4 * z_consumo + 0.35 * z_agua + 0.25 * z_co2\<close>, summed from the left.\<close>

definition score_raw_f64 :: "real \<Rightarrow> real \<Rightarrow> real \<Rightarrow> real" where
  "score_raw_f64 z_consumo z_agua z_co2 =
     rnd64 (rnd64 (rnd64 (rnd64 0.4 * z_consumo) + rnd64 (rnd64 0.35 * z_agua))
            + rnd64 (rnd64 0.25 * z_co2))"

text \<open>
  One term of \<^verbatim>\<open>scores_hist\<close>, \<^verbatim>\<open>w * abs(col - col.median()) / (q75 - q25 + 1e-6)\<close>:
  the product with the weight comes first, the division second.
\<close>

fun termino_hist_f64 :: "real \<Rightarrow> real \<Rightarrow> real \<times> real \<times> real \<Rightarrow> real" where
  "termino_hist_f64 w x (med, q75, q25) =
     rnd64 (rnd64 (rnd64 w * \<bar>rnd64 (x - med)\<bar>) / rnd64 (rnd64 (q75 - q25) + rnd64 0.000001))"

text \<open>The entry of \<^verbatim>\<open>scores_hist\<close> for a historical row: its three terms, summed from the left.\<close>

definition score_hist_f64 ::
  "real \<times> real \<times> real \<Rightarrow> real \<times> real \<times> real \<Rightarrow> real \<times> real \<times> real \<Rightarrow>
   real \<Rightarrow> real \<Rightarrow> real \<Rightarrow> real" where
  "score_hist_f64 est_consumo est_agua est_co2 x_consumo x_agua x_co2 =
     rnd64 (rnd64 (termino_hist_f64 0.4 x_consumo est_consumo
                   + termino_hist_f64 0.35 x_agua est_agua)
            + termino_hist_f64 0.25 x_co2 est_co2)"

section \<open>Auxiliary lemmas\<close>

subsection \<open>Float arithmetic\<close>

lemma fl_div_scale: "fl_div (fl_mul (Fin w) a) d = fl_mul (Fin w) (fl_div a d)"
  by (cases a; cases d) simp_all

lemma fl_lt_trans: "fl_lt a b \<Longrightarrow> fl_lt b c \<Longrightarrow> fl_lt a c"
  by (cases a; cases b; cases c) simp_all

lemma fl_lt_NaN_right: "fl_lt s NaN = False"
  by (cases s) simp_all

subsection \<open>Rounding\<close>

lemma rint_of_int: "rint (of_int k) = k"
  by (simp add: rint_def)

lemma rint_bounds: "\<lfloor>x\<rfloor> \<le> rint x \<and> rint x \<le> \<lfloor>x\<rfloor> + 1"
  by (simp add: rint_def Let_def)

lemma rint_mono:
  assumes "x \<le> y" shows "rint x \<le> rint y"
proof (cases "\<lfloor>x\<rfloor> = \<lfloor>y\<rfloor>")
  case True
  have "x - of_int \<lfloor>x\<rfloor> \<le> y - of_int \<lfloor>x\<rfloor>" using assms by simp
  then show ?thesis unfolding rint_def Let_def True[symmetric] by auto
next
  case False
  have "\<lfloor>x\<rfloor> \<le> \<lfloor>y\<rfloor>" using assms by (rule floor_mono)
  then have "\<lfloor>x\<rfloor> + 1 \<le> \<lfloor>y\<rfloor>" using False by simp
  then show ?thesis using rint_bounds[of x] rint_bounds[of y] by linarith
qed

lemma rint_nonneg: "0 \<le> x \<Longrightarrow> 0 \<le> rint x"
  using rint_mono[of 0 x] rint_of_int[of 0] by simp

lemma round2_mono: "x \<le> y \<Longrightarrow> round2 x \<le> round2 y"
  by (simp add: round2_def rint_mono divide_right_mono)

lemma round2_0: "round2 0 = 0"
  using rint_of_int[of 0] by (simp add: round2_def)

lemma round2_100: "round2 100 = 100"
  using rint_of_int[of 10000] by (simp add: round2_def)

lemma round2_small: "0 \<le> x \<Longrightarrow> x < 0.005 \<Longrightarrow> round2 x = 0"
proof -
  assume a: "0 \<le> x" "x < 0.005"
  have f: "\<lfloor>x * 100\<rfloor> = 0" using a by (simp add: floor_eq_iff)
  show ?thesis using a by (simp add: round2_def rint_def Let_def f)
qed

lemma round2_pct_bounds:
  assumes "0 \<le> p" "p \<le> 1"
  shows "0 \<le> round2 (p * 100) \<and> round2 (p * 100) \<le> 100"
proof -
  have "round2 0 \<le> round2 (p * 100)" by (rule round2_mono) (use assms in simp)
  moreover have "round2 (p * 100) \<le> round2 100" by (rule round2_mono) (use assms in simp)
  ultimately show ?thesis by (simp add: round2_0 round2_100)
qed

lemma ln1p_small: "0 < x \<Longrightarrow> x < 0.005 \<Longrightarrow> ln (1 + x) \<noteq> 0 \<and> round2 (ln (1 + x)) = 0"
proof -
  assume a: "0 < x" "x < 0.005"
  have p: "0 < ln (1 + x)" using a(1) by (simp add: ln_gt_zero)
  have "ln (1 + x) \<le> x" using a(1) by (intro ln_add_one_self_le_self) simp
  then have "ln (1 + x) < 0.005" using a(2) by linarith
  then show ?thesis using p by (simp add: round2_small)
qed

subsection \<open>Quantiles are ordered\<close>

lemma sort_eq_Nil: "sort xs = [] \<longleftrightarrow> xs = ([]::real list)"
  by (metis length_0_conv length_sort)

lemma interp_bounds:
  assumes "sorted s" "0 \<le> h" "h \<le> real (length s - 1)" "s \<noteq> []"
  shows "s ! nat \<lfloor>h\<rfloor> \<le> interp s h \<and> interp s h \<le> s ! min (nat \<lfloor>h\<rfloor> + 1) (length s - 1)"
proof -
  let ?lo = "nat \<lfloor>h\<rfloor>"
  let ?hi = "min (?lo + 1) (length s - 1)"
  let ?f = "h - real ?lo"
  have lo_le: "real ?lo \<le> h" using assms(2) by (simp add: of_nat_nat)
  have f0: "0 \<le> ?f" using lo_le by simp
  have f1: "?f \<le> 1" using assms(2) by linarith
  have "real ?lo \<le> real (length s - 1)" using assms(3) lo_le by linarith
  then have "?lo \<le> length s - 1" by simp
  then have lohi: "?lo \<le> ?hi" by simp
  have n1: "length s - 1 < length s" using assms(4) by (cases s) simp_all
  have hi_lt: "?hi < length s" using n1 by simp
  have d: "0 \<le> s ! ?hi - s ! ?lo" using sorted_nth_mono[OF assms(1) lohi hi_lt] by simp
  have a: "0 \<le> (s ! ?hi - s ! ?lo) * ?f" using d f0 by simp
  have b: "(s ! ?hi - s ! ?lo) * ?f \<le> (s ! ?hi - s ! ?lo)" using d f1 by (simp add: mult_left_le)
  show ?thesis unfolding interp_def Let_def using a b by linarith
qed

lemma interp_mono:
  assumes "sorted s" "0 \<le> h" "h \<le> h'" "h' \<le> real (length s - 1)" "s \<noteq> []"
  shows "interp s h \<le> interp s h'"
proof -
  let ?lo = "nat \<lfloor>h\<rfloor>" and ?lo' = "nat \<lfloor>h'\<rfloor>"
  have le: "?lo \<le> ?lo'" using assms(3) by (simp add: floor_mono nat_mono)
  have lo'_le: "real ?lo' \<le> h'" using assms(2,3) by (simp add: of_nat_nat)
  have "real ?lo' \<le> real (length s - 1)" using assms(4) lo'_le by linarith
  then have lo'_n: "?lo' \<le> length s - 1" by simp
  have n1: "length s - 1 < length s" using assms(5) by (cases s) simp_all
  have lo'_lt: "?lo' < length s" using lo'_n n1 by simp
  show ?thesis
  proof (cases "?lo = ?lo'")
    case True
    let ?hi = "min (?lo + 1) (length s - 1)"
    have lohi: "?lo \<le> ?hi" using lo'_n True by simp
    have hi_lt: "?hi < length s" using n1 by simp
    have d: "0 \<le> s ! ?hi - s ! ?lo" using sorted_nth_mono[OF assms(1) lohi hi_lt] by simp
    have "interp s h' - interp s h = (s ! ?hi - s ! ?lo) * (h' - h)"
      unfolding interp_def Let_def True[symmetric] by (simp add: algebra_simps)
    moreover have "0 \<le> (s ! ?hi - s ! ?lo) * (h' - h)" using d assms(3) by simp
    ultimately show ?thesis by linarith
  next
    case False
    then have lt: "?lo + 1 \<le> ?lo'" using le by simp
    have h_le: "h \<le> real (length s - 1)" using assms(3,4) by simp
    have "interp s h \<le> s ! min (?lo + 1) (length s - 1)"
      using interp_bounds[OF assms(1,2) h_le assms(5)] by simp
    also have "\<dots> \<le> s ! ?lo'"
      by (rule sorted_nth_mono[OF assms(1) _ lo'_lt]) (use lt in simp)
    also have "\<dots> \<le> interp s h'"
      using interp_bounds[OF assms(1) _ assms(4,5)] assms(2,3) by simp
    finally show ?thesis .
  qed
qed

lemma quantile_interp:
  "quantile q serie = (if dropna serie = [] then NaN
     else Fin (interp (sort (dropna serie)) (q * real (length (dropna serie) - 1))))"
  by (simp add: quantile_def interp_def Let_def sort_eq_Nil)

lemma quantile_le:
  assumes "dropna serie \<noteq> []"
  shows "\<exists>a b. quantile 0.25 serie = Fin a \<and> quantile 0.75 serie = Fin b \<and> a \<le> b"
proof -
  let ?s = "sort (dropna serie)"
  let ?n = "real (length (dropna serie) - 1)"
  have s2: "?s \<noteq> []" using assms by (simp add: sort_eq_Nil)
  have s: "sorted ?s" "real (length ?s - 1) = ?n" by simp_all
  have "interp ?s (0.25 * ?n) \<le> interp ?s (0.75 * ?n)"
    by (rule interp_mono[OF s(1) _ _ _ s2]) (simp_all add: s(2))
  then show ?thesis using assms by (simp add: quantile_interp)
qed

lemma quantile_NaN: "dropna serie = [] \<Longrightarrow> quantile q serie = NaN"
  by (simp add: quantile_def)

text \<open>The divisor \<open>iqr + 1e-6\<close> is \<^verbatim>\<open>nan\<close> or positive, never zero.\<close>

lemma divisor_pos:
  "fl_add (fl_sub (quantile 0.75 serie) (quantile 0.25 serie)) (Fin 0.000001) = NaN \<or>
   (\<exists>d. fl_add (fl_sub (quantile 0.75 serie) (quantile 0.25 serie)) (Fin 0.000001) = Fin d \<and> 0 < d)"
proof (cases "dropna serie = []")
  case True
  then show ?thesis by (simp add: quantile_NaN)
next
  case False
  from quantile_le[OF False] obtain a b where
    "quantile 0.25 serie = Fin a" "quantile 0.75 serie = Fin b" "a \<le> b" by blast
  then show ?thesis by simp
qed

subsection \<open>Deviations and raw scores\<close>

lemma spec_deviation_nonneg:
  "spec_deviation v S = NaN \<or> (\<exists>x. spec_deviation v S = Fin x \<and> 0 \<le> x)"
proof -
  let ?d = "fl_add (fl_sub (quantile 0.75 S) (quantile 0.25 S)) (Fin 0.000001)"
  from divisor_pos[of S] consider "?d = NaN" | d where "?d = Fin d" "0 < d" by blast
  then show ?thesis
  proof cases
    case 1
    then show ?thesis by (cases "fl_abs (fl_sub v (median S))") (simp_all add: spec_deviation_def)
  next
    case 2
    then show ?thesis
      by (cases "fl_sub v (median S)") (simp_all add: spec_deviation_def)
  qed
qed

lemma spec_deviation_real:
  assumes "median S = Fin m" "quantile 0.75 S = Fin q75" "quantile 0.25 S = Fin q25"
  shows "spec_deviation (Fin v) S = Fin (\<bar>v - m\<bar> / (q75 - q25 + 0.000001)) \<and> q25 \<le> q75"
proof -
  have ne: "dropna S \<noteq> []" using assms(2) by (auto simp: quantile_NaN)
  from quantile_le[OF ne] assms(2,3) have le: "q25 \<le> q75" by auto
  then have "q75 - q25 + 0.000001 \<noteq> 0" by simp
  then show ?thesis unfolding spec_deviation_def assms using le by simp
qed

lemma spec_raw_score_nonneg:
  assumes "a = NaN \<or> (\<exists>x. a = Fin x \<and> 0 \<le> x)"
      and "b = NaN \<or> (\<exists>x. b = Fin x \<and> 0 \<le> x)"
      and "c = NaN \<or> (\<exists>x. c = Fin x \<and> 0 \<le> x)"
  shows "spec_raw_score a b c = NaN \<or> (\<exists>x. spec_raw_score a b c = Fin x \<and> 0 \<le> x)"
  using assms by (cases a; cases b; cases c) (auto simp: spec_raw_score_def)

lemma score_raw_nonneg:
  "spec_raw_of ctx e w c = NaN \<or> (\<exists>x. spec_raw_of ctx e w c = Fin x \<and> 0 \<le> x)"
  unfolding spec_raw_of_def
  by (rule spec_raw_score_nonneg) (rule spec_deviation_nonneg)+

lemma spec_raw_of_NaN: "e = NaN \<or> w = NaN \<or> c = NaN \<Longrightarrow> spec_raw_of ctx e w c = NaN"
  by (auto simp: spec_raw_of_def spec_raw_score_def spec_deviation_def)

lemma score_raw_de_spec: "score_raw_de a b c = spec_raw_score a b c"
  by (simp add: score_raw_de_def spec_raw_score_def)

lemma log1p_raw:
  "log1p (spec_raw_of ctx e w c) = NaN \<and> spec_raw_of ctx e w c = NaN \<or>
   (\<exists>x. spec_raw_of ctx e w c = Fin x \<and> 0 \<le> x \<and> log1p (spec_raw_of ctx e w c) = Fin (ln (1 + x)))"
  using score_raw_nonneg[of ctx e w c] by auto

lemma score_2dec:
  "fl_round2 (log1p (spec_raw_of ctx e w c)) = NaN \<or>
   (\<exists>k::int. fl_round2 (log1p (spec_raw_of ctx e w c)) = Fin (of_int k / 100) \<and> 0 \<le> k)"
proof -
  from score_raw_nonneg[of ctx e w c] consider "spec_raw_of ctx e w c = NaN"
    | x where "spec_raw_of ctx e w c = Fin x" "0 \<le> x" by blast
  then show ?thesis
  proof cases
    case 1
    then show ?thesis by simp
  next
    case 2
    have "0 \<le> ln (1 + x) * 100" using 2(2) by simp
    then have "0 \<le> rint (ln (1 + x) * 100)" by (rule rint_nonneg)
    then show ?thesis using 2 by (auto simp: round2_def)
  qed
qed

subsection \<open>Percentile\<close>

lemma percentil_de_bounds: "0 \<le> percentil_de hist raw \<and> percentil_de hist raw \<le> 1"
proof -
  have "length (filter (\<lambda>s. fl_lt s raw) hist) \<le> length hist" by (rule length_filter_le)
  then have "real (length (filter (\<lambda>s. fl_lt s raw) hist)) \<le> real (length hist)" by simp
  then show ?thesis by (simp add: percentil_de_def divide_le_eq_1)
qed

lemma length_filter_mono:
  "(\<And>x. x \<in> set xs \<Longrightarrow> P x \<Longrightarrow> Q x) \<Longrightarrow> length (filter P xs) \<le> length (filter Q xs)"
  by (induction xs) auto

lemma percentil_de_mono:
  assumes "fl_lt raw_b raw_a" shows "percentil_de hist raw_b \<le> percentil_de hist raw_a"
proof -
  have "length (filter (\<lambda>s. fl_lt s raw_b) hist) \<le> length (filter (\<lambda>s. fl_lt s raw_a) hist)"
    by (rule length_filter_mono) (rule fl_lt_trans[OF _ assms])
  then show ?thesis by (simp add: percentil_de_def divide_right_mono)
qed

lemma scores_hist_spec:
  "scores_hist ctx = map (\<lambda>r. spec_raw_of ctx (consumo_kwh r) (agua_litros r) (co2_kg r)) ctx"
  by (simp add: scores_hist_def termino_hist_def spec_raw_of_def spec_raw_score_def
      spec_deviation_def fl_div_scale)

lemma percentil_de_spec: "percentil_de (scores_hist ctx) raw = spec_percentile ctx raw"
  by (simp add: percentil_de_def scores_hist_spec spec_percentile_def filter_map o_def)

lemma spec_percentile_bounds: "0 \<le> spec_percentile ctx raw \<and> spec_percentile ctx raw \<le> 1"
  using percentil_de_bounds[of "scores_hist ctx" raw] by (simp add: percentil_de_spec)

lemma spec_percentile_NaN: "spec_percentile ctx NaN = 0"
  by (simp add: spec_percentile_def fl_lt_NaN_right)

subsection \<open>Tiers and causes\<close>

lemma nivel_evento_cases: "nivel_evento p \<in> {''Normal'', ''Alerta'', Critica}"
  by (simp add: nivel_evento_def)

lemma niveles_distintos: "distinct [''Normal'', ''Alerta'', Critica]"
  by (simp add: Critica_def)

lemma tier_eq: "clasificar_anomalia (Fin p) = spec_tier p" "nivel_evento p = spec_tier p"
  by (auto simp: clasificar_anomalia_def nivel_evento_def spec_tier_def)

lemma clasificar_NaN: "clasificar_anomalia NaN = Critica"
  by (simp add: clasificar_anomalia_def)

lemma causas_de_nonempty: "causas_de a b c \<noteq> []"
  by (simp add: causas_de_def Let_def)

lemma causas_de_iff:
  "(causa_consumo \<in> set (causas_de a b c) \<longleftrightarrow> fl_gt a (Fin 3)) \<and>
   (causa_agua \<in> set (causas_de a b c) \<longleftrightarrow> fl_gt b (Fin 3)) \<and>
   (causa_co2 \<in> set (causas_de a b c) \<longleftrightarrow> fl_gt c (Fin 3)) \<and>
   (causa_combinada \<in> set (causas_de a b c) \<longleftrightarrow>
      \<not> fl_gt a (Fin 3) \<and> \<not> fl_gt b (Fin 3) \<and> \<not> fl_gt c (Fin 3))"
  by (simp add: causas_de_def Let_def causa_consumo_def causa_agua_def causa_co2_def
      causa_combinada_def)

lemma causas_de_solo_consumo:
  "fl_gt a (Fin 3) \<Longrightarrow> \<not> fl_gt b (Fin 3) \<Longrightarrow> \<not> fl_gt c (Fin 3) \<Longrightarrow>
   causas_de a b c = [causa_consumo]"
  by (simp add: causas_de_def Let_def)

lemma causas_de_ninguna:
  "\<not> fl_gt a (Fin 3) \<Longrightarrow> \<not> fl_gt b (Fin 3) \<Longrightarrow> \<not> fl_gt c (Fin 3) \<Longrightarrow>
   causas_de a b c = [causa_combinada]"
  by (simp add: causas_de_def Let_def)

subsection \<open>The event function\<close>

lemma score_robusto_num: "score_robusto (PyNum v) serie = Inr (spec_deviation v serie)"
  by (simp add: score_robusto_def spec_deviation_def)

lemma score_robusto_no_numero: "\<not> es_numero valor \<Longrightarrow> score_robusto valor serie = Inl TypeError"
  by (cases valor) (simp_all add: score_robusto_def)

lemma score_robusto_numero: "es_numero valor \<Longrightarrow> \<exists>z. score_robusto valor serie = Inr z"
  by (cases valor) (simp_all add: score_robusto_def)

lemma score_robusto_iqr_cero:
  assumes "median S = Fin m"
      and "fl_sub (quantile 0.75 S) (quantile 0.25 S) = Fin 0"
  shows "score_robusto (PyNum (Fin v)) S = Inr (Fin (\<bar>v - m\<bar> * 1000000))"
  unfolding score_robusto_def Let_def assms by simp

text \<open>The whole result of the event function on numeric signals and a sufficient context.\<close>

lemma detectar_num:
  assumes "50 \<le> length (contexto_de df_ref h)"
  shows "detectar_anomalia_evento df_ref ts h (PyNum e) (PyNum w) (PyNum c) =
     Inr [(''timestamp'', DStr ts),
          (''nivel'', DStr (nivel_evento
              (spec_percentile (contexto_de df_ref h) (spec_raw_of (contexto_de df_ref h) e w c)))),
          (''percentil'', DNum (Fin (round2
              (spec_percentile (contexto_de df_ref h) (spec_raw_of (contexto_de df_ref h) e w c) * 100)))),
          (''score'', DNum (fl_round2 (log1p (spec_raw_of (contexto_de df_ref h) e w c)))),
          (''explicacion'', DList (causas_de
              (spec_deviation e (map consumo_kwh (contexto_de df_ref h)))
              (spec_deviation w (map agua_litros (contexto_de df_ref h)))
              (spec_deviation c (map co2_kg (contexto_de df_ref h)))))]"
  using assms
  by (simp add: detectar_anomalia_evento_def Let_def score_robusto_num score_raw_de_spec
      percentil_de_spec spec_raw_of_def)

lemma detectar_insuficiente:
  assumes "length (contexto_de df_ref h) < 50"
  shows "detectar_anomalia_evento df_ref ts h consumo agua co2 =
     Inr [(''nivel'', DStr ''Normal''), (''mensaje'', DStr mensaje_insuficiente)]"
  using assms by (simp add: detectar_anomalia_evento_def Let_def)

lemma detectar_TypeError:
  assumes "50 \<le> length (contexto_de df_ref h)"
      and "\<not> es_numero consumo \<or> \<not> es_numero agua \<or> \<not> es_numero co2"
  shows "detectar_anomalia_evento df_ref ts h consumo agua co2 = Inl TypeError"
proof -
  let ?ctx = "contexto_de df_ref h"
  have n: "\<not> length ?ctx < 50" using assms(1) by simp
  show ?thesis
  proof (cases "es_numero consumo")
    case False
    then show ?thesis
      using n by (simp add: detectar_anomalia_evento_def Let_def score_robusto_no_numero)
  next
    case c: True
    then obtain z1 where z1: "score_robusto consumo (map consumo_kwh ?ctx) = Inr z1"
      using score_robusto_numero by blast
    show ?thesis
    proof (cases "es_numero agua")
      case False
      then show ?thesis
        using n z1 by (simp add: detectar_anomalia_evento_def Let_def score_robusto_no_numero)
    next
      case True
      then obtain z2 where z2: "score_robusto agua (map agua_litros ?ctx) = Inr z2"
        using score_robusto_numero by blast
      have "\<not> es_numero co2" using assms(2) c True by simp
      then show ?thesis
        using n z1 z2 by (simp add: detectar_anomalia_evento_def Let_def score_robusto_no_numero)
    qed
  qed
qed

text \<open>
  The same result written with the function's own intermediate values: the historical
  scores \<open>scores_hist\<close> and the candidate's \<open>score_raw_de\<close>, each in its own operation
  order.
\<close>

lemma detectar_codigo:
  assumes "50 \<le> length (contexto_de df_ref h)"
  shows "\<exists>z_consumo z_agua z_co2.
     score_robusto (PyNum e) (map consumo_kwh (contexto_de df_ref h)) = Inr z_consumo \<and>
     score_robusto (PyNum w) (map agua_litros (contexto_de df_ref h)) = Inr z_agua \<and>
     score_robusto (PyNum c) (map co2_kg (contexto_de df_ref h)) = Inr z_co2 \<and>
     detectar_anomalia_evento df_ref ts h (PyNum e) (PyNum w) (PyNum c) =
       Inr [(''timestamp'', DStr ts),
            (''nivel'', DStr (nivel_evento
                (percentil_de (scores_hist (contexto_de df_ref h))
                   (score_raw_de z_consumo z_agua z_co2)))),
            (''percentil'', DNum (Fin (round2
                (percentil_de (scores_hist (contexto_de df_ref h))
                   (score_raw_de z_consumo z_agua z_co2) * 100)))),
            (''score'', DNum (fl_round2 (log1p (score_raw_de z_consumo z_agua z_co2)))),
            (''explicacion'', DList (causas_de z_consumo z_agua z_co2))]"
  using assms
  by (simp add: detectar_anomalia_evento_def Let_def score_robusto_num)

subsection \<open>The batch script\<close>

lemma z_batch_iqr0:
  assumes "fl_sub (quantile 0.75 (grupo var results r)) (quantile 0.25 (grupo var results r)) = Fin 0"
  shows "z_batch var results r = NaN"
proof -
  have "fl_div (fl_abs (fl_sub (var r) (median (grupo var results r)))) NaN = NaN"
    by (cases "fl_abs (fl_sub (var r) (median (grupo var results r)))") simp_all
  then show ?thesis unfolding z_batch_def Let_def assms by simp
qed

text \<open>The divisor of the batch loop is \<^verbatim>\<open>nan\<close> or positive as well.\<close>

lemma batch_divisor_pos:
  "fl_add (replace_0_nan (fl_sub (quantile 0.75 serie) (quantile 0.25 serie))) (Fin 0.000001) = NaN \<or>
   (\<exists>d. fl_add (replace_0_nan (fl_sub (quantile 0.75 serie) (quantile 0.25 serie)))
             (Fin 0.000001) = Fin d \<and> 0 < d)"
proof (cases "dropna serie = []")
  case True
  then show ?thesis by (simp add: quantile_NaN)
next
  case False
  from quantile_le[OF False] obtain a b where
    q: "quantile 0.25 serie = Fin a" "quantile 0.75 serie = Fin b" "a \<le> b" by blast
  show ?thesis unfolding q using q(3) by simp
qed

lemma raw_batch_NaN:
  assumes "z_batch consumo_kwh results r = NaN \<or> z_batch agua_litros results r = NaN \<or>
           z_batch co2_kg results r = NaN"
  shows "anomalia_score_raw_de results r = NaN"
proof -
  have a: "fl_add (fl_add (fl_mul (Fin p) NaN) y) z = NaN" for p y z by simp
  have b: "fl_add (fl_add x (fl_mul (Fin p) NaN)) z = NaN" for p x z by (cases x) simp_all
  have c: "fl_add x (fl_mul (Fin p) NaN) = NaN" for p x by (cases x) simp_all
  show ?thesis using assms unfolding anomalia_score_raw_de_def by (auto simp: a b c)
qed

lemma batch_nth: "i < length results \<Longrightarrow> batch results ! i = fila_de results (results ! i)"
  by (simp add: batch_def)

subsection \<open>Statistics of a two-valued column\<close>

lemma dropna_append: "dropna (xs @ ys) = dropna xs @ dropna ys"
  by (induction xs rule: dropna.induct) simp_all

lemma dropna_replicate: "dropna (replicate n (Fin a)) = replicate n a"
  by (induction n) simp_all

lemma sort_bloques:
  "a \<le> b \<Longrightarrow> sort (replicate m a @ replicate n b) = replicate m a @ replicate n (b::real)"
  by (rule sorted_sort_id) (auto simp: sorted_append)

lemma median_bloques:
  assumes "a \<le> b" "0 < n"
  shows "median (replicate n (Fin a) @ replicate n (Fin b)) = Fin ((a + b) / 2)"
proof -
  have e: "(n + n) div 2 = n" by simp
  show ?thesis using assms
    by (simp add: median_def dropna_append dropna_replicate sort_bloques Let_def e nth_append)
qed

lemma quantile_bloque_bajo:
  assumes "a \<le> b" "0 \<le> q" "q * real (m + n - 1) + 1 < real m"
  shows "quantile q (replicate m (Fin a) @ replicate n (Fin b)) = Fin a"
proof -
  define k where "k = nat \<lfloor>q * real (m + n - 1)\<rfloor>"
  have h0: "0 \<le> q * real (m + n - 1)" using assms(2) by simp
  have "real k \<le> q * real (m + n - 1)" unfolding k_def using h0 by (simp add: of_nat_nat)
  then have "real k + 1 < real m" using assms(3) by linarith
  then have lo: "k + 1 < m" by linarith
  have hi: "min (k + 1) (m + n - 1) < m" using lo by (rule min.strict_coboundedI1)
  have lo': "k < m" using lo by simp
  have m0: "m + n \<noteq> 0" using lo by simp
  have "quantile q (replicate m (Fin a) @ replicate n (Fin b)) =
        Fin ((replicate m a @ replicate n b) ! k +
            ((replicate m a @ replicate n b) ! min (k + 1) (m + n - 1) -
             (replicate m a @ replicate n b) ! k) * (q * real (m + n - 1) - real k))"
    unfolding quantile_def Let_def dropna_append dropna_replicate sort_bloques[OF assms(1)] k_def
    using m0 by simp
  also have "\<dots> = Fin a" using hi lo' by (simp add: nth_append)
  finally show ?thesis .
qed

lemma quantile_bloque_alto:
  assumes "a \<le> b" "real m \<le> q * real (m + n - 1)" "q \<le> 1" "0 < n"
  shows "quantile q (replicate m (Fin a) @ replicate n (Fin b)) = Fin b"
proof -
  define k where "k = nat \<lfloor>q * real (m + n - 1)\<rfloor>"
  have "int m \<le> \<lfloor>q * real (m + n - 1)\<rfloor>" using assms(2) by (simp add: le_floor_iff)
  then have lo: "m \<le> k" unfolding k_def by simp
  have "q * real (m + n - 1) \<le> 1 * real (m + n - 1)"
    using assms(3) by (intro mult_right_mono) simp_all
  then have "\<lfloor>q * real (m + n - 1)\<rfloor> \<le> \<lfloor>real (m + n - 1)\<rfloor>" by (intro floor_mono) simp
  then have lo_n: "k \<le> m + n - 1" unfolding k_def by simp
  have lo_lt: "k - m < n" using lo lo_n assms(4) by simp
  have hi: "m \<le> min (k + 1) (m + n - 1)" using lo assms(4) by simp
  have hi_lt: "min (k + 1) (m + n - 1) - m < n" using assms(4) by simp
  have nlo: "\<not> k < m" "\<not> min (k + 1) (m + n - 1) < m"
    using lo hi by simp_all
  have m0: "m + n \<noteq> 0" using assms(4) by simp
  have "quantile q (replicate m (Fin a) @ replicate n (Fin b)) =
        Fin ((replicate m a @ replicate n b) ! k +
            ((replicate m a @ replicate n b) ! min (k + 1) (m + n - 1) -
             (replicate m a @ replicate n b) ! k) * (q * real (m + n - 1) - real k))"
    unfolding quantile_def Let_def dropna_append dropna_replicate sort_bloques[OF assms(1)] k_def
    using m0 by simp
  also have "\<dots> = Fin b" using nlo lo_lt hi_lt by (simp add: nth_append)
  finally show ?thesis .
qed

lemma spec_deviation_bloques:
  assumes "a \<le> b" "2 \<le> n"
  shows "spec_deviation (Fin v) (replicate n (Fin a) @ replicate n (Fin b)) =
         Fin (\<bar>v - (a + b) / 2\<bar> / (b - a + 0.000001))"
proof -
  have n: "0 < n" using assms(2) by simp
  have r: "real (n + n - 1) = 2 * real n - 1" using n by (simp add: of_nat_diff)
  have r2: "2 \<le> real n" using assms(2) by simp
  have "(2 * real n - 1) / 4 + 1 < real n" using r2 by (simp add: field_simps)
  then have c25: "0.25 * real (n + n - 1) + 1 < real n" unfolding r by simp
  have "real n \<le> 3 * (2 * real n - 1) / 4" using r2 by (simp add: field_simps)
  then have c75: "real n \<le> 0.75 * real (n + n - 1)" unfolding r by simp
  have q25: "quantile 0.25 (replicate n (Fin a) @ replicate n (Fin b)) = Fin a"
    by (rule quantile_bloque_bajo[OF assms(1) _ c25]) simp
  have q75: "quantile 0.75 (replicate n (Fin a) @ replicate n (Fin b)) = Fin b"
    by (rule quantile_bloque_alto[OF assms(1) c75 _ n]) simp
  have pos: "b - a + 0.000001 \<noteq> 0" using assms(1) by simp
  show ?thesis
    unfolding spec_deviation_def q25 q75 median_bloques[OF assms(1) n]
    using pos by simp
qed

subsection \<open>Evaluation on the sample tables\<close>

lemma ctx_tabla60: "contexto_de tabla60 12 = replicate 30 r_bajo @ replicate 30 r_alto"
  by (simp add: contexto_de_def tabla60_def r_bajo_def r_alto_def r_noche_def)

lemma ctx_tabla50: "contexto_de tabla50 12 = replicate 25 r_bajo @ replicate 25 r_alto"
  by (simp add: contexto_de_def tabla50_def r_bajo_def r_alto_def r_noche_def)

lemma ctx_tabla49: "contexto_de tabla49 12 = replicate 24 r_bajo @ replicate 25 r_alto"
  by (simp add: contexto_de_def tabla49_def r_bajo_def r_alto_def r_noche_def)

lemma desv_mediodia:
  assumes "2 \<le> n"
  shows "spec_deviation (Fin v) (map consumo_kwh (replicate n r_bajo @ replicate n r_alto)) =
           Fin (\<bar>v - 5000\<bar> / 500.000001)"
    and "spec_deviation (Fin v) (map agua_litros (replicate n r_bajo @ replicate n r_alto)) =
           Fin (\<bar>v - 100000\<bar> / 20000.000001)"
    and "spec_deviation (Fin v) (map co2_kg (replicate n r_bajo @ replicate n r_alto)) =
           Fin (\<bar>v - 900\<bar> / 100.000001)"
  using spec_deviation_bloques[OF _ assms, of 4750 5250 v]
        spec_deviation_bloques[OF _ assms, of 90000 110000 v]
        spec_deviation_bloques[OF _ assms, of 850 950 v]
  by (simp_all add: r_bajo_def r_alto_def)

lemma raw_mediodia:
  assumes "2 \<le> n"
  shows "spec_raw_of (replicate n r_bajo @ replicate n r_alto) (Fin e) (Fin w) (Fin c) =
           Fin (0.4 * (\<bar>e - 5000\<bar> / 500.000001) + 0.35 * (\<bar>w - 100000\<bar> / 20000.000001)
                + 0.25 * (\<bar>c - 900\<bar> / 100.000001))"
  unfolding spec_raw_of_def desv_mediodia[OF assms] by (simp add: spec_raw_score_def)

lemma raw_hist_mediodia:
  assumes "2 \<le> n"
  shows "spec_raw_of (replicate n r_bajo @ replicate n r_alto)
           (consumo_kwh r_bajo) (agua_litros r_bajo) (co2_kg r_bajo) =
         Fin (100 / 500.000001 + 3500 / 20000.000001 + 12.5 / 100.000001)"
    and "spec_raw_of (replicate n r_bajo @ replicate n r_alto)
           (consumo_kwh r_alto) (agua_litros r_alto) (co2_kg r_alto) =
         Fin (100 / 500.000001 + 3500 / 20000.000001 + 12.5 / 100.000001)"
proof -
  have b: "consumo_kwh r_bajo = Fin 4750" "agua_litros r_bajo = Fin 90000" "co2_kg r_bajo = Fin 850"
    by (simp_all add: r_bajo_def)
  have a: "consumo_kwh r_alto = Fin 5250" "agua_litros r_alto = Fin 110000" "co2_kg r_alto = Fin 950"
    by (simp_all add: r_alto_def)
  show "spec_raw_of (replicate n r_bajo @ replicate n r_alto)
           (consumo_kwh r_bajo) (agua_litros r_bajo) (co2_kg r_bajo) =
         Fin (100 / 500.000001 + 3500 / 20000.000001 + 12.5 / 100.000001)"
    unfolding b raw_mediodia[OF assms] by simp
  show "spec_raw_of (replicate n r_bajo @ replicate n r_alto)
           (consumo_kwh r_alto) (agua_litros r_alto) (co2_kg r_alto) =
         Fin (100 / 500.000001 + 3500 / 20000.000001 + 12.5 / 100.000001)"
    unfolding a raw_mediodia[OF assms] by simp
qed

lemma pct_mediodia:
  assumes "2 \<le> n"
  shows "spec_percentile (replicate n r_bajo @ replicate n r_alto) (Fin x) =
         (if 100 / 500.000001 + 3500 / 20000.000001 + 12.5 / 100.000001 < x then 1 else 0)"
proof -
  have n: "real n + real n \<noteq> 0" using assms by simp
  show ?thesis
    unfolding spec_percentile_def filter_append filter_replicate raw_hist_mediodia[OF assms]
    using n by simp
qed

lemma stats_tabla60:
  "median (map consumo_kwh (contexto_de tabla60 12)) = Fin 5000"
  "quantile 0.75 (map consumo_kwh (contexto_de tabla60 12)) = Fin 5250"
  "quantile 0.25 (map consumo_kwh (contexto_de tabla60 12)) = Fin 4750"
proof -
  have c: "map consumo_kwh (contexto_de tabla60 12) = replicate 30 (Fin 4750) @ replicate 30 (Fin 5250)"
    by (simp add: ctx_tabla60 r_bajo_def r_alto_def)
  show "median (map consumo_kwh (contexto_de tabla60 12)) = Fin 5000"
    unfolding c by (subst median_bloques) simp_all
  show "quantile 0.75 (map consumo_kwh (contexto_de tabla60 12)) = Fin 5250"
    unfolding c by (subst quantile_bloque_alto) simp_all
  show "quantile 0.25 (map consumo_kwh (contexto_de tabla60 12)) = Fin 4750"
    unfolding c by (subst quantile_bloque_bajo) simp_all
qed

lemma grupo_plana:
  "i < 5 \<Longrightarrow> grupo consumo_kwh tabla_plana (tabla_plana ! i) =
     [Fin 1200, Fin 1200, Fin 1200, Fin 1200, Fin 1500]"
  by (cases i rule: nat.exhaust; simp add: grupo_def tabla_plana_def r_noche_def nth_Cons split: nat.splits)

lemma stats_plana:
  "median [Fin 1200, Fin 1200, Fin 1200, Fin 1200, Fin 1500] = Fin 1200"
  "quantile 0.75 [Fin 1200, Fin 1200, Fin 1200, Fin 1200, Fin 1500] = Fin 1200"
  "quantile 0.25 [Fin 1200, Fin 1200, Fin 1200, Fin 1200, Fin 1500] = Fin 1200"
  by (simp_all add: median_def quantile_def Let_def)

lemma stats_tabla60_agua:
  "median (map agua_litros (contexto_de tabla60 12)) = Fin 100000"
  "quantile 0.75 (map agua_litros (contexto_de tabla60 12)) = Fin 110000"
  "quantile 0.25 (map agua_litros (contexto_de tabla60 12)) = Fin 90000"
proof -
  have c: "map agua_litros (contexto_de tabla60 12) =
           replicate 30 (Fin 90000) @ replicate 30 (Fin 110000)"
    by (simp add: ctx_tabla60 r_bajo_def r_alto_def)
  show "median (map agua_litros (contexto_de tabla60 12)) = Fin 100000"
    unfolding c by (subst median_bloques) simp_all
  show "quantile 0.75 (map agua_litros (contexto_de tabla60 12)) = Fin 110000"
    unfolding c by (subst quantile_bloque_alto) simp_all
  show "quantile 0.25 (map agua_litros (contexto_de tabla60 12)) = Fin 90000"
    unfolding c by (subst quantile_bloque_bajo) simp_all
qed

lemma stats_tabla60_co2:
  "median (map co2_kg (contexto_de tabla60 12)) = Fin 900"
  "quantile 0.75 (map co2_kg (contexto_de tabla60 12)) = Fin 950"
  "quantile 0.25 (map co2_kg (contexto_de tabla60 12)) = Fin 850"
proof -
  have c: "map co2_kg (contexto_de tabla60 12) = replicate 30 (Fin 850) @ replicate 30 (Fin 950)"
    by (simp add: ctx_tabla60 r_bajo_def r_alto_def)
  show "median (map co2_kg (contexto_de tabla60 12)) = Fin 900"
    unfolding c by (subst median_bloques) simp_all
  show "quantile 0.75 (map co2_kg (contexto_de tabla60 12)) = Fin 950"
    unfolding c by (subst quantile_bloque_alto) simp_all
  show "quantile 0.25 (map co2_kg (contexto_de tabla60 12)) = Fin 850"
    unfolding c by (subst quantile_bloque_bajo) simp_all
qed

subsection \<open>Binary64 rounding\<close>

lemma floor_log2:
  assumes "0 < x" "(2::real) ^ 52 \<le> x * 2 ^ n" "x * 2 ^ n < 2 ^ 53"
  shows "\<lfloor>log 2 x\<rfloor> = 52 - int n"
proof -
  have p: "(2::real) powr (real_of_int (52 - int n)) = 2 ^ 52 / 2 ^ n"
  proof -
    have "(2::real) powr (real_of_int (52 - int n)) = 2 powr (52 - real n)" by simp
    also have "\<dots> = 2 powr 52 / 2 powr (real n)" by (rule powr_diff)
    also have "\<dots> = 2 ^ 52 / 2 ^ n"
      using powr_realpow[of "2::real" 52] powr_realpow[of "2::real" n] by simp
    finally show ?thesis .
  qed
  have q: "(2::real) powr (real_of_int (52 - int n) + 1) = 2 ^ 53 / 2 ^ n"
  proof -
    have "(2::real) powr (real_of_int (52 - int n) + 1) =
          2 powr (real_of_int (52 - int n)) * 2 powr 1"
      by (rule powr_add)
    then show ?thesis unfolding p by simp
  qed
  have lo: "2 powr (real_of_int (52 - int n)) \<le> x"
    unfolding p using assms(2) by (simp add: field_simps)
  have hi: "x < 2 powr (real_of_int (52 - int n) + 1)"
    unfolding q using assms(3) by (simp add: field_simps)
  have a: "real_of_int (52 - int n) \<le> log 2 x" using lo assms(1) by (simp add: le_log_iff)
  have b: "log 2 x < real_of_int (52 - int n) + 1" using hi assms(1) by (simp add: log_less_iff)
  show ?thesis using a b by (intro floor_unique) simp_all
qed

lemma rnd64_eval:
  assumes "0 < x" "(2::real) ^ 52 \<le> x * 2 ^ n" "x * 2 ^ n < 2 ^ 53"
      and "rint (x * 2 ^ n) = k" and "y = of_int k / 2 ^ n"
  shows "rnd64 x = y"
proof -
  have e: "\<lfloor>log 2 \<bar>x\<bar>\<rfloor> = 52 - int n" using floor_log2[OF assms(1-3)] assms(1) by simp
  have u: "(2::real) powr (of_int (52 - int n) - 52) = 1 / 2 ^ n"
  proof -
    have "(2::real) powr (of_int (52 - int n) - 52) = 2 powr (- real n)" by simp
    also have "\<dots> = 1 / 2 powr (real n)" by (simp add: powr_minus_divide)
    also have "\<dots> = 1 / 2 ^ n" using powr_realpow[of "2::real" n] by simp
    finally show ?thesis .
  qed
  show ?thesis
    unfolding rnd64_def Let_def e u using assms(1,4,5) by simp
qed

lemma rnd64_minus: "rnd64 (- x) = - rnd64 x"
  by (simp add: rnd64_def Let_def)

text \<open>The roundings met when the two formulas are evaluated on the sample noon context.\<close>

lemma f64_0: "rnd64 (1 / 1000000) = 4722366482869645 / 4722366482869645213696"
  by (rule rnd64_eval[where n = 72 and k = 4722366482869645]) (simp_all add: rint_def Let_def)

lemma f64_1: "rnd64 (109951162777600 / 879609311016893) = 9007199164669001 / 72057594037927936"
  by (rule rnd64_eval[where n = 56 and k = 9007199164669001]) (simp_all add: rint_def Let_def)

lemma f64_2: "rnd64 (9007199164669001 / 72057594037927936) = 9007199164669001 / 72057594037927936"
  by (rule rnd64_eval[where n = 56 and k = 9007199164669001]) (simp_all add: rint_def Let_def)

lemma f64_3: "rnd64 (3549421680461571000294812167163 / 20282409603651670423947251286016) = 3152519739001721 / 18014398509481984"
  by (rule rnd64_eval[where n = 55 and k = 6305039478003442]) (simp_all add: rint_def Let_def)

lemma f64_4: "rnd64 (481036337152000 / 2748779069577439) = 3152519739001721 / 18014398509481984"
  by (rule rnd64_eval[where n = 55 and k = 6305039478003442]) (simp_all add: rint_def Let_def)

lemma f64_5: "rnd64 (879609302220800 / 4398046519900093) = 7205759389381275 / 36028797018963968"
  by (rule rnd64_eval[where n = 55 and k = 7205759389381275]) (simp_all add: rint_def Let_def)

lemma f64_6: "rnd64 (16225927650469482791836201340909 / 81129638414606681695789005144064) = 1801439847345319 / 9007199254740992"
  by (rule rnd64_eval[where n = 55 and k = 7205759389381276]) (simp_all add: rint_def Let_def)

lemma f64_7: "rnd64 (1 / 4) = 1 / 4"
  by (rule rnd64_eval[where n = 54 and k = 4503599627370496]) (simp_all add: rint_def Let_def)

lemma f64_8: "rnd64 (7 / 20) = 3152519739159347 / 9007199254740992"
  by (rule rnd64_eval[where n = 54 and k = 6305039478318694]) (simp_all add: rint_def Let_def)

lemma f64_9: "rnd64 (13510798867384717 / 36028797018963968) = 3377699716846179 / 9007199254740992"
  by (rule rnd64_eval[where n = 54 and k = 6755399433692358]) (simp_all add: rint_def Let_def)

lemma f64_10: "rnd64 (6755399433692359 / 18014398509481984) = 6755399433692359 / 18014398509481984"
  by (rule rnd64_eval[where n = 54 and k = 6755399433692359]) (simp_all add: rint_def Let_def)

lemma f64_11: "rnd64 (2 / 5) = 3602879701896397 / 9007199254740992"
  by (rule rnd64_eval[where n = 54 and k = 7205759403792794]) (simp_all add: rint_def Let_def)

lemma f64_12: "rnd64 (439804651110400 / 879609311016893) = 9007199164669001 / 18014398509481984"
  by (rule rnd64_eval[where n = 54 and k = 9007199164669001]) (simp_all add: rint_def Let_def)

lemma f64_13: "rnd64 (36028796899438433 / 72057594037927936) = 1125899903107451 / 2251799813685248"
  by (rule rnd64_eval[where n = 54 and k = 9007199224859608]) (simp_all add: rint_def Let_def)

lemma f64_14: "rnd64 (36028796899438437 / 72057594037927936) = 9007199224859609 / 18014398509481984"
  by (rule rnd64_eval[where n = 54 and k = 9007199224859609]) (simp_all add: rint_def Let_def)

lemma f64_15: "rnd64 (2199023255552000 / 4398046519900093) = 4503599618363297 / 9007199254740992"
  by (rule rnd64_eval[where n = 54 and k = 9007199236726594]) (simp_all add: rint_def Let_def)

lemma f64_16: "rnd64 (1374389534720000 / 2748779069577439) = 1125899906786329 / 2251799813685248"
  by (rule rnd64_eval[where n = 54 and k = 9007199254290632]) (simp_all add: rint_def Let_def)

lemma f64_17: "rnd64 (25 / 2) = 25 / 2"
  by (rule rnd64_eval[where n = 49 and k = 7036874417766400]) (simp_all add: rint_def Let_def)

lemma f64_18: "rnd64 (50) = 50"
  by (rule rnd64_eval[where n = 47 and k = 7036874417766400]) (simp_all add: rint_def Let_def)

lemma f64_19: "rnd64 (100) = 100"
  by (rule rnd64_eval[where n = 46 and k = 7036874417766400]) (simp_all add: rint_def Let_def)

lemma f64_20: "rnd64 (450359962737049625 / 4503599627370496) = 100"
  by (rule rnd64_eval[where n = 46 and k = 7036874417766400]) (simp_all add: rint_def Let_def)

lemma f64_21: "rnd64 (472236653009331004239245 / 4722366482869645213696) = 879609311016893 / 8796093022208"
  by (rule rnd64_eval[where n = 46 and k = 7036874488135144]) (simp_all add: rint_def Let_def)

lemma f64_22: "rnd64 (250) = 250"
  by (rule rnd64_eval[where n = 45 and k = 8796093022208000]) (simp_all add: rint_def Let_def)

lemma f64_23: "rnd64 (500) = 500"
  by (rule rnd64_eval[where n = 44 and k = 8796093022208000]) (simp_all add: rint_def Let_def)

lemma f64_24: "rnd64 (2361183246157189089717645 / 4722366482869645213696) = 4398046519900093 / 8796093022208"
  by (rule rnd64_eval[where n = 44 and k = 8796093039800186]) (simp_all add: rint_def Let_def)

lemma f64_25: "rnd64 (1970324836974591875 / 562949953421312) = 3500"
  by (rule rnd64_eval[where n = 41 and k = 7696581394432000]) (simp_all add: rint_def Let_def)

lemma f64_26: "rnd64 (10000) = 10000"
  by (rule rnd64_eval[where n = 39 and k = 5497558138880000]) (simp_all add: rint_def Let_def)

lemma f64_27: "rnd64 (20000) = 20000"
  by (rule rnd64_eval[where n = 38 and k = 5497558138880000]) (simp_all add: rint_def Let_def)

lemma f64_28: "rnd64 (94447329662115270756789645 / 4722366482869645213696) = 2748779069577439 / 137438953472"
  by (rule rnd64_eval[where n = 38 and k = 5497558139154878]) (simp_all add: rint_def Let_def)

lemmas f64 = rnd64_minus f64_0 f64_1 f64_2 f64_3 f64_4 f64_5 f64_6 f64_7 f64_8 f64_9 f64_10 f64_11 f64_12 f64_13 f64_14 f64_15 f64_16 f64_17 f64_18 f64_19 f64_20 f64_21 f64_22 f64_23 f64_24 f64_25 f64_26 f64_27 f64_28

section \<open>Claims\<close>

text \<open>
  C1 (as amended). With at least 50 readings at the candidate's hour and numeric
  signals, each deviation is \<open>|v - median| / (Q75 - Q25 + 1e-6)\<close> over the context
  column, the raw score is \<open>0.40 * d_energy + 0.35 * d_water + 0.25 * d_co2\<close>, and the
  returned score is \<open>log1p\<close> of the raw score rounded to 2 decimals. The raw score is
  never negative, so \<open>log1p\<close> is taken inside its domain, and a raw score of 0 gives
  the score 0.
\<close>

theorem event_score_formula:
  assumes "50 \<le> length (contexto_de df_ref h)"
  shows "(\<exists>z_consumo z_agua z_co2 score_raw res.
           score_robusto (PyNum e) (map consumo_kwh (contexto_de df_ref h)) = Inr z_consumo \<and>
           score_robusto (PyNum w) (map agua_litros (contexto_de df_ref h)) = Inr z_agua \<and>
           score_robusto (PyNum c) (map co2_kg (contexto_de df_ref h)) = Inr z_co2 \<and>
           z_consumo = spec_deviation e (map consumo_kwh (contexto_de df_ref h)) \<and>
           z_agua = spec_deviation w (map agua_litros (contexto_de df_ref h)) \<and>
           z_co2 = spec_deviation c (map co2_kg (contexto_de df_ref h)) \<and>
           score_raw = score_raw_de z_consumo z_agua z_co2 \<and>
           score_raw = spec_raw_score z_consumo z_agua z_co2 \<and>
           detectar_anomalia_evento df_ref ts h (PyNum e) (PyNum w) (PyNum c) = Inr res \<and>
           map_of res ''score'' = Some (DNum (fl_round2 (log1p score_raw))) \<and>
           (score_raw = NaN \<or>
            (\<exists>x. score_raw = Fin x \<and> 0 \<le> x \<and> log1p score_raw = Fin (ln (1 + x)))) \<and>
           (score_raw = Fin 0 \<longrightarrow> map_of res ''score'' = Some (DNum (Fin 0)))) \<and>
         (median S = Fin m \<and> quantile 0.75 S = Fin q75 \<and> quantile 0.25 S = Fin q25 \<longrightarrow>
           score_robusto (PyNum (Fin v)) S = Inr (Fin (\<bar>v - m\<bar> / (q75 - q25 + 0.000001)))) \<and>
         spec_raw_score (Fin d_e) (Fin d_w) (Fin d_c) = Fin (0.40 * d_e + 0.35 * d_w + 0.25 * d_c)"
proof (intro conjI)
  let ?ctx = "contexto_de df_ref h"
  have z: "fl_round2 (log1p (Fin 0)) = Fin 0" by (simp add: round2_0)
  show "\<exists>z_consumo z_agua z_co2 score_raw res.
           score_robusto (PyNum e) (map consumo_kwh (contexto_de df_ref h)) = Inr z_consumo \<and>
           score_robusto (PyNum w) (map agua_litros (contexto_de df_ref h)) = Inr z_agua \<and>
           score_robusto (PyNum c) (map co2_kg (contexto_de df_ref h)) = Inr z_co2 \<and>
           z_consumo = spec_deviation e (map consumo_kwh (contexto_de df_ref h)) \<and>
           z_agua = spec_deviation w (map agua_litros (contexto_de df_ref h)) \<and>
           z_co2 = spec_deviation c (map co2_kg (contexto_de df_ref h)) \<and>
           score_raw = score_raw_de z_consumo z_agua z_co2 \<and>
           score_raw = spec_raw_score z_consumo z_agua z_co2 \<and>
           detectar_anomalia_evento df_ref ts h (PyNum e) (PyNum w) (PyNum c) = Inr res \<and>
           map_of res ''score'' = Some (DNum (fl_round2 (log1p score_raw))) \<and>
           (score_raw = NaN \<or>
            (\<exists>x. score_raw = Fin x \<and> 0 \<le> x \<and> log1p score_raw = Fin (ln (1 + x)))) \<and>
           (score_raw = Fin 0 \<longrightarrow> map_of res ''score'' = Some (DNum (Fin 0)))"
    using log1p_raw[of ?ctx e w c] z
    by (simp add: score_robusto_num score_raw_de_spec detectar_num[OF assms]
        spec_raw_of_def[symmetric]) auto
  show "median S = Fin m \<and> quantile 0.75 S = Fin q75 \<and> quantile 0.25 S = Fin q25 \<longrightarrow>
           score_robusto (PyNum (Fin v)) S = Inr (Fin (\<bar>v - m\<bar> / (q75 - q25 + 0.000001)))"
    using spec_deviation_real[of S m q75 q25 v] by (simp add: score_robusto_num)
  show "spec_raw_score (Fin d_e) (Fin d_w) (Fin d_c) = Fin (0.40 * d_e + 0.35 * d_w + 0.25 * d_c)"
    by (simp add: spec_raw_score_def)
qed

theorem event_score_formula_witness:
  "50 \<le> length (contexto_de tabla60 12) \<and>
   spec_raw_of (contexto_de tabla60 12) (Fin 5000) (Fin 100000) (Fin 900) = Fin 0 \<and>
   (\<exists>res. detectar_anomalia_evento tabla60 ''2025-06-26 12:00'' 12
             (PyNum (Fin 5000)) (PyNum (Fin 100000)) (PyNum (Fin 900)) = Inr res \<and>
          map_of res ''score'' = Some (DNum (Fin 0))) \<and>
   median (map consumo_kwh (contexto_de tabla60 12)) = Fin 5000 \<and>
   quantile 0.75 (map consumo_kwh (contexto_de tabla60 12)) = Fin 5250 \<and>
   quantile 0.25 (map consumo_kwh (contexto_de tabla60 12)) = Fin 4750 \<and>
   score_robusto (PyNum (Fin 7200)) (map consumo_kwh (contexto_de tabla60 12)) =
     Inr (Fin (\<bar>7200 - 5000\<bar> / (5250 - 4750 + 0.000001)))"
proof -
  have l: "50 \<le> length (contexto_de tabla60 12)" by (simp add: ctx_tabla60)
  have r: "spec_raw_of (contexto_de tabla60 12) (Fin 5000) (Fin 100000) (Fin 900) = Fin 0"
    unfolding ctx_tabla60 by (subst raw_mediodia) simp_all
  note inst = event_score_formula[OF l, where e = "Fin 5000" and w = "Fin 100000" and c = "Fin 900"
      and ts = "''2025-06-26 12:00''" and S = "map consumo_kwh (contexto_de tabla60 12)"
      and m = 5000 and ?q75.0 = 5250 and ?q25.0 = 4750 and v = 7200
      and d_e = 0 and d_w = 0 and d_c = 0]
  from inst obtain z_consumo z_agua z_co2 score_raw res where
    z: "z_consumo = spec_deviation (Fin 5000) (map consumo_kwh (contexto_de tabla60 12))"
       "z_agua = spec_deviation (Fin 100000) (map agua_litros (contexto_de tabla60 12))"
       "z_co2 = spec_deviation (Fin 900) (map co2_kg (contexto_de tabla60 12))"
       "score_raw = spec_raw_score z_consumo z_agua z_co2"
    and d: "detectar_anomalia_evento tabla60 ''2025-06-26 12:00'' 12
             (PyNum (Fin 5000)) (PyNum (Fin 100000)) (PyNum (Fin 900)) = Inr res"
           "score_raw = Fin 0 \<longrightarrow> map_of res ''score'' = Some (DNum (Fin 0))"
    by blast
  have "score_raw = Fin 0" using z r by (simp add: spec_raw_of_def)
  then have a: "\<exists>res. detectar_anomalia_evento tabla60 ''2025-06-26 12:00'' 12
             (PyNum (Fin 5000)) (PyNum (Fin 100000)) (PyNum (Fin 900)) = Inr res \<and>
          map_of res ''score'' = Some (DNum (Fin 0))"
    using d by blast
  have b: "score_robusto (PyNum (Fin 7200)) (map consumo_kwh (contexto_de tabla60 12)) =
     Inr (Fin (\<bar>7200 - 5000\<bar> / (5250 - 4750 + 0.000001)))"
    using inst stats_tabla60 by blast
  show ?thesis using l r a b stats_tabla60 by blast
qed

theorem event_score_is_rounded_counterexample:
  "detectar_anomalia_evento tabla60 ''2025-06-25 12:00'' 12
       (PyNum (Fin 5005)) (PyNum (Fin 100000)) (PyNum (Fin 900)) =
     Inr [(''timestamp'', DStr ''2025-06-25 12:00''), (''nivel'', DStr ''Normal''),
          (''percentil'', DNum (Fin 0)), (''score'', DNum (Fin 0)),
          (''explicacion'', DList [causa_combinada])] \<and>
   spec_raw_of (contexto_de tabla60 12) (Fin 5005) (Fin 100000) (Fin 900) = Fin (2 / 500.000001) \<and>
   log1p (Fin (2 / 500.000001)) \<noteq> Fin 0"
proof -
  have l: "50 \<le> length (contexto_de tabla60 12)" by (simp add: ctx_tabla60)
  have r: "spec_raw_of (contexto_de tabla60 12) (Fin 5005) (Fin 100000) (Fin 900) = Fin (2 / 500.000001)"
    unfolding ctx_tabla60 by (subst raw_mediodia) simp_all
  have p: "spec_percentile (contexto_de tabla60 12) (Fin (2 / 500.000001)) = 0"
    unfolding ctx_tabla60 by (subst pct_mediodia) simp_all
  have s: "ln (1 + 2 / 500.000001) \<noteq> (0::real) \<and> round2 (ln (1 + 2 / 500.000001)) = 0"
    by (rule ln1p_small) simp_all
  have d1: "\<not> fl_gt (spec_deviation (Fin 5005) (map consumo_kwh (contexto_de tabla60 12))) (Fin 3)"
    unfolding ctx_tabla60 by (subst desv_mediodia(1)) simp_all
  have d2: "\<not> fl_gt (spec_deviation (Fin 100000) (map agua_litros (contexto_de tabla60 12))) (Fin 3)"
    unfolding ctx_tabla60 by (subst desv_mediodia(2)) simp_all
  have d3: "\<not> fl_gt (spec_deviation (Fin 900) (map co2_kg (contexto_de tabla60 12))) (Fin 3)"
    unfolding ctx_tabla60 by (subst desv_mediodia(3)) simp_all
  have lg: "log1p (Fin (2 / 500.000001)) = Fin (ln (1 + 2 / 500.000001))" by simp
  show ?thesis
    unfolding detectar_num[OF l] r p lg causas_de_ninguna[OF d1 d2 d3]
    using s by (simp add: round2_0 nivel_evento_def)
qed

text \<open>
  C2. Both paths map the percentile to the tier by the same function: below 0.90
  \<^verbatim>\<open>Normal\<close>, from 0.90 and below 0.97 \<^verbatim>\<open>Alerta\<close>, from 0.97 on \<^verbatim>\<open>Critica\<close>. The batch
  row's tier is \<^verbatim>\<open>clasificar_anomalia\<close> of its percentile, and the event result's tier
  is the same function of the percentile the event function computed, that is of
  \<^verbatim>\<open>(scores_hist < score_raw).mean()\<close>.
\<close>

theorem tier_thresholds_both_paths:
  "clasificar_anomalia (Fin p) = spec_tier p \<and> nivel_evento p = spec_tier p \<and>
   (p < 0.90 \<longrightarrow> spec_tier p = ''Normal'') \<and>
   (0.90 \<le> p \<and> p < 0.97 \<longrightarrow> spec_tier p = ''Alerta'') \<and>
   (0.97 \<le> p \<longrightarrow> spec_tier p = Critica) \<and>
   distinct [''Normal'', ''Alerta'', Critica] \<and>
   nivel_anomalia (fila_de results r) = clasificar_anomalia (anomalia_percentil (fila_de results r)) \<and>
   (50 \<le> length (contexto_de df_ref h) \<longrightarrow>
      (\<exists>z_consumo z_agua z_co2 res.
         score_robusto (PyNum e) (map consumo_kwh (contexto_de df_ref h)) = Inr z_consumo \<and>
         score_robusto (PyNum w) (map agua_litros (contexto_de df_ref h)) = Inr z_agua \<and>
         score_robusto (PyNum c) (map co2_kg (contexto_de df_ref h)) = Inr z_co2 \<and>
         detectar_anomalia_evento df_ref ts h (PyNum e) (PyNum w) (PyNum c) = Inr res \<and>
         map_of res ''nivel'' = Some (DStr (spec_tier
            (percentil_de (scores_hist (contexto_de df_ref h))
               (score_raw_de z_consumo z_agua z_co2))))))"
proof -
  have ev: "50 \<le> length (contexto_de df_ref h) \<longrightarrow>
      (\<exists>z_consumo z_agua z_co2 res.
         score_robusto (PyNum e) (map consumo_kwh (contexto_de df_ref h)) = Inr z_consumo \<and>
         score_robusto (PyNum w) (map agua_litros (contexto_de df_ref h)) = Inr z_agua \<and>
         score_robusto (PyNum c) (map co2_kg (contexto_de df_ref h)) = Inr z_co2 \<and>
         detectar_anomalia_evento df_ref ts h (PyNum e) (PyNum w) (PyNum c) = Inr res \<and>
         map_of res ''nivel'' = Some (DStr (spec_tier
            (percentil_de (scores_hist (contexto_de df_ref h))
               (score_raw_de z_consumo z_agua z_co2)))))"
  proof
    assume a: "50 \<le> length (contexto_de df_ref h)"
    from detectar_codigo[OF a, of e w c ts] obtain z_consumo z_agua z_co2 where
      z: "score_robusto (PyNum e) (map consumo_kwh (contexto_de df_ref h)) = Inr z_consumo"
         "score_robusto (PyNum w) (map agua_litros (contexto_de df_ref h)) = Inr z_agua"
         "score_robusto (PyNum c) (map co2_kg (contexto_de df_ref h)) = Inr z_co2"
      and d: "detectar_anomalia_evento df_ref ts h (PyNum e) (PyNum w) (PyNum c) =
       Inr [(''timestamp'', DStr ts),
            (''nivel'', DStr (nivel_evento
                (percentil_de (scores_hist (contexto_de df_ref h))
                   (score_raw_de z_consumo z_agua z_co2)))),
            (''percentil'', DNum (Fin (round2
                (percentil_de (scores_hist (contexto_de df_ref h))
                   (score_raw_de z_consumo z_agua z_co2) * 100)))),
            (''score'', DNum (fl_round2 (log1p (score_raw_de z_consumo z_agua z_co2)))),
            (''explicacion'', DList (causas_de z_consumo z_agua z_co2))]"
      by blast
    have "map_of [(''timestamp'', DStr ts),
            (''nivel'', DStr (nivel_evento
                (percentil_de (scores_hist (contexto_de df_ref h))
                   (score_raw_de z_consumo z_agua z_co2)))),
            (''percentil'', DNum (Fin (round2
                (percentil_de (scores_hist (contexto_de df_ref h))
                   (score_raw_de z_consumo z_agua z_co2) * 100)))),
            (''score'', DNum (fl_round2 (log1p (score_raw_de z_consumo z_agua z_co2)))),
            (''explicacion'', DList (causas_de z_consumo z_agua z_co2))] ''nivel'' =
          Some (DStr (spec_tier (percentil_de (scores_hist (contexto_de df_ref h))
                   (score_raw_de z_consumo z_agua z_co2))))"
      by (simp add: tier_eq)
    then show "\<exists>z_consumo z_agua z_co2 res.
         score_robusto (PyNum e) (map consumo_kwh (contexto_de df_ref h)) = Inr z_consumo \<and>
         score_robusto (PyNum w) (map agua_litros (contexto_de df_ref h)) = Inr z_agua \<and>
         score_robusto (PyNum c) (map co2_kg (contexto_de df_ref h)) = Inr z_co2 \<and>
         detectar_anomalia_evento df_ref ts h (PyNum e) (PyNum w) (PyNum c) = Inr res \<and>
         map_of res ''nivel'' = Some (DStr (spec_tier
            (percentil_de (scores_hist (contexto_de df_ref h))
               (score_raw_de z_consumo z_agua z_co2))))"
      using z d by blast
  qed
  have th: "(p < 0.90 \<longrightarrow> spec_tier p = ''Normal'') \<and>
   (0.90 \<le> p \<and> p < 0.97 \<longrightarrow> spec_tier p = ''Alerta'') \<and>
   (0.97 \<le> p \<longrightarrow> spec_tier p = Critica)"
    by (auto simp: spec_tier_def)
  have ba: "nivel_anomalia (fila_de results r) =
      clasificar_anomalia (anomalia_percentil (fila_de results r))"
    by (simp add: fila_de_def)
  show ?thesis using ev th ba niveles_distintos tier_eq by blast
qed

theorem tier_thresholds_both_paths_witness:
  "((0.5::real) < 0.90 \<and> clasificar_anomalia (Fin 0.5) = ''Normal'' \<and> nivel_evento 0.5 = ''Normal'') \<and>
   ((0.90::real) \<le> 0.90 \<and> (0.90::real) < 0.97 \<and>
      clasificar_anomalia (Fin 0.90) = ''Alerta'' \<and> nivel_evento 0.90 = ''Alerta'') \<and>
   ((0.97::real) \<le> 0.97 \<and> clasificar_anomalia (Fin 0.97) = Critica \<and> nivel_evento 0.97 = Critica) \<and>
   50 \<le> length (contexto_de tabla60 12) \<and>
   (\<exists>res. detectar_anomalia_evento tabla60 ''2025-06-24 12:00'' 12
             (PyNum (Fin 7200)) (PyNum (Fin 180000)) (PyNum (Fin 1600)) = Inr res \<and>
          map_of res ''nivel'' = Some (DStr Critica))"
proof -
  have l: "50 \<le> length (contexto_de tabla60 12)" by (simp add: ctx_tabla60)
  have a: "clasificar_anomalia (Fin 0.5) = ''Normal'' \<and> nivel_evento 0.5 = ''Normal''"
    using tier_thresholds_both_paths[where p = "0.5"] by simp
  have b: "clasificar_anomalia (Fin 0.90) = ''Alerta'' \<and> nivel_evento 0.90 = ''Alerta''"
    using tier_thresholds_both_paths[where p = "0.90"] by simp
  have c: "clasificar_anomalia (Fin 0.97) = Critica \<and> nivel_evento 0.97 = Critica"
    using tier_thresholds_both_paths[where p = "0.97"] by simp
  have r: "spec_raw_of (contexto_de tabla60 12) (Fin 7200) (Fin 180000) (Fin 1600) =
           Fin (0.4 * (\<bar>7200 - 5000\<bar> / 500.000001) + 0.35 * (\<bar>180000 - 100000\<bar> / 20000.000001)
                + 0.25 * (\<bar>1600 - 900\<bar> / 100.000001))"
    unfolding ctx_tabla60 by (rule raw_mediodia) simp
  have p: "percentil_de (scores_hist (contexto_de tabla60 12))
             (spec_raw_of (contexto_de tabla60 12) (Fin 7200) (Fin 180000) (Fin 1600)) = 1"
    unfolding percentil_de_spec r unfolding ctx_tabla60 by (subst pct_mediodia) simp_all
  have t1: "spec_tier 1 = Critica" by (simp add: spec_tier_def)
  from tier_thresholds_both_paths[where df_ref = tabla60 and h = 12 and e = "Fin 7200"
        and w = "Fin 180000" and c = "Fin 1600" and ts = "''2025-06-24 12:00''" and p = 1
        and results = tabla60 and r = r_bajo] l
  obtain z_consumo z_agua z_co2 res where
    z: "score_robusto (PyNum (Fin 7200)) (map consumo_kwh (contexto_de tabla60 12)) = Inr z_consumo"
       "score_robusto (PyNum (Fin 180000)) (map agua_litros (contexto_de tabla60 12)) = Inr z_agua"
       "score_robusto (PyNum (Fin 1600)) (map co2_kg (contexto_de tabla60 12)) = Inr z_co2"
    and d: "detectar_anomalia_evento tabla60 ''2025-06-24 12:00'' 12
             (PyNum (Fin 7200)) (PyNum (Fin 180000)) (PyNum (Fin 1600)) = Inr res"
           "map_of res ''nivel'' = Some (DStr (spec_tier
              (percentil_de (scores_hist (contexto_de tabla60 12))
                 (score_raw_de z_consumo z_agua z_co2))))"
    by blast
  have "score_raw_de z_consumo z_agua z_co2 =
        spec_raw_of (contexto_de tabla60 12) (Fin 7200) (Fin 180000) (Fin 1600)"
    using z by (simp add: score_robusto_num score_raw_de_spec spec_raw_of_def)
  then have "map_of res ''nivel'' = Some (DStr Critica)" using d(2) by (simp add: p t1)
  then have ex: "\<exists>res. detectar_anomalia_evento tabla60 ''2025-06-24 12:00'' 12
             (PyNum (Fin 7200)) (PyNum (Fin 180000)) (PyNum (Fin 1600)) = Inr res \<and>
          map_of res ''nivel'' = Some (DStr Critica)"
    using d(1) by blast
  show ?thesis using l a b c ex by simp
qed

text \<open>
  C3. The event function on the sample noon context of 60 readings and a candidate
  equal to one of them, (4750, 90000, 850), in binary64 arithmetic. By the claim the
  percentile is the fraction of historical readings whose raw score, computed with
  the candidate's formula, is strictly below the candidate's; that formula gives
  every historical reading the candidate's own score, so the fraction is 0. The
  function computes the historical scores as \<open>(w * a) / d\<close> instead, which rounds to
  one unit in the last place less than the candidate's \<open>w * (a / d)\<close>: all 60
  historical scores are strictly below the candidate's, and the percentile is 60/60.
\<close>

theorem event_history_formula_order_differs:
  "contexto_de tabla60 12 = replicate 30 r_bajo @ replicate 30 r_alto \<and>
   median (map consumo_kwh (contexto_de tabla60 12)) = Fin 5000 \<and>
   quantile 0.75 (map consumo_kwh (contexto_de tabla60 12)) = Fin 5250 \<and>
   quantile 0.25 (map consumo_kwh (contexto_de tabla60 12)) = Fin 4750 \<and>
   median (map agua_litros (contexto_de tabla60 12)) = Fin 100000 \<and>
   quantile 0.75 (map agua_litros (contexto_de tabla60 12)) = Fin 110000 \<and>
   quantile 0.25 (map agua_litros (contexto_de tabla60 12)) = Fin 90000 \<and>
   median (map co2_kg (contexto_de tabla60 12)) = Fin 900 \<and>
   quantile 0.75 (map co2_kg (contexto_de tabla60 12)) = Fin 950 \<and>
   quantile 0.25 (map co2_kg (contexto_de tabla60 12)) = Fin 850 \<and>
   score_raw_f64 (score_robusto_f64 4750 (5000, 5250, 4750))
                 (score_robusto_f64 90000 (100000, 110000, 90000))
                 (score_robusto_f64 850 (900, 950, 850)) = 9007199224859609 / 2 ^ 54 \<and>
   score_raw_f64 (score_robusto_f64 5250 (5000, 5250, 4750))
                 (score_robusto_f64 110000 (100000, 110000, 90000))
                 (score_robusto_f64 950 (900, 950, 850)) = 9007199224859609 / 2 ^ 54 \<and>
   score_hist_f64 (5000, 5250, 4750) (100000, 110000, 90000) (900, 950, 850) 4750 90000 850 =
     9007199224859608 / 2 ^ 54 \<and>
   score_hist_f64 (5000, 5250, 4750) (100000, 110000, 90000) (900, 950, 850) 5250 110000 950 =
     9007199224859608 / 2 ^ 54 \<and>
   score_hist_f64 (5000, 5250, 4750) (100000, 110000, 90000) (900, 950, 850) 4750 90000 850 <
     score_raw_f64 (score_robusto_f64 4750 (5000, 5250, 4750))
                   (score_robusto_f64 90000 (100000, 110000, 90000))
                   (score_robusto_f64 850 (900, 950, 850)) \<and>
   score_hist_f64 (5000, 5250, 4750) (100000, 110000, 90000) (900, 950, 850) 5250 110000 950 <
     score_raw_f64 (score_robusto_f64 4750 (5000, 5250, 4750))
                   (score_robusto_f64 90000 (100000, 110000, 90000))
                   (score_robusto_f64 850 (900, 950, 850))"
proof -
  have cb: "score_raw_f64 (score_robusto_f64 4750 (5000, 5250, 4750))
                 (score_robusto_f64 90000 (100000, 110000, 90000))
                 (score_robusto_f64 850 (900, 950, 850)) = 9007199224859609 / 2 ^ 54"
    by (simp add: score_raw_f64_def f64)
  have ca: "score_raw_f64 (score_robusto_f64 5250 (5000, 5250, 4750))
                 (score_robusto_f64 110000 (100000, 110000, 90000))
                 (score_robusto_f64 950 (900, 950, 850)) = 9007199224859609 / 2 ^ 54"
    by (simp add: score_raw_f64_def f64)
  have hb: "score_hist_f64 (5000, 5250, 4750) (100000, 110000, 90000) (900, 950, 850)
              4750 90000 850 = 9007199224859608 / 2 ^ 54"
    by (simp add: score_hist_f64_def f64)
  have ha: "score_hist_f64 (5000, 5250, 4750) (100000, 110000, 90000) (900, 950, 850)
              5250 110000 950 = 9007199224859608 / 2 ^ 54"
    by (simp add: score_hist_f64_def f64)
  have lt: "(9007199224859608::real) / 2 ^ 54 < 9007199224859609 / 2 ^ 54" by simp
  show ?thesis
    unfolding cb ca hb ha
    using ctx_tabla60 stats_tabla60 stats_tabla60_agua stats_tabla60_co2 lt by simp
qed

text \<open>
  C4. With fewer than 50 readings at the candidate's hour (49 in particular) the event
  function returns the insufficient-data result, whatever the signals are, and does
  not raise. With 50 or more readings and numeric signals it returns the full
  classification: the timestamp, a tier, the percentile on a scale from 0 to 100
  rounded to 2 decimals, the score rounded to 2 decimals, and a non-empty list of
  causes.
\<close>

theorem context_size_boundary:
  "(length (contexto_de df_ref h) < 50 \<longrightarrow>
      detectar_anomalia_evento df_ref ts h consumo agua co2 =
        Inr [(''nivel'', DStr ''Normal''), (''mensaje'', DStr mensaje_insuficiente)]) \<and>
   (50 \<le> length (contexto_de df_ref h) \<longrightarrow>
      (\<exists>nivel p s causas.
         detectar_anomalia_evento df_ref ts h (PyNum e) (PyNum w) (PyNum c) =
           Inr [(''timestamp'', DStr ts), (''nivel'', DStr nivel), (''percentil'', DNum (Fin p)),
                (''score'', DNum s), (''explicacion'', DList causas)] \<and>
         nivel \<in> {''Normal'', ''Alerta'', Critica} \<and>
         0 \<le> p \<and> p \<le> 100 \<and> (\<exists>k::int. p = of_int k / 100) \<and>
         s = fl_round2 (log1p (spec_raw_of (contexto_de df_ref h) e w c)) \<and>
         (s = NaN \<or> (\<exists>k::int. s = Fin (of_int k / 100) \<and> 0 \<le> k)) \<and>
         causas \<noteq> []))"
proof (intro conjI impI)
  assume "length (contexto_de df_ref h) < 50"
  then show "detectar_anomalia_evento df_ref ts h consumo agua co2 =
        Inr [(''nivel'', DStr ''Normal''), (''mensaje'', DStr mensaje_insuficiente)]"
    by (rule detectar_insuficiente)
next
  assume a: "50 \<le> length (contexto_de df_ref h)"
  let ?ctx = "contexto_de df_ref h"
  from detectar_codigo[OF a, of e w c ts] obtain z_consumo z_agua z_co2 where
    z: "score_robusto (PyNum e) (map consumo_kwh ?ctx) = Inr z_consumo"
       "score_robusto (PyNum w) (map agua_litros ?ctx) = Inr z_agua"
       "score_robusto (PyNum c) (map co2_kg ?ctx) = Inr z_co2"
    and d: "detectar_anomalia_evento df_ref ts h (PyNum e) (PyNum w) (PyNum c) =
       Inr [(''timestamp'', DStr ts),
            (''nivel'', DStr (nivel_evento
                (percentil_de (scores_hist ?ctx) (score_raw_de z_consumo z_agua z_co2)))),
            (''percentil'', DNum (Fin (round2
                (percentil_de (scores_hist ?ctx) (score_raw_de z_consumo z_agua z_co2) * 100)))),
            (''score'', DNum (fl_round2 (log1p (score_raw_de z_consumo z_agua z_co2)))),
            (''explicacion'', DList (causas_de z_consumo z_agua z_co2))]"
    by blast
  let ?pc = "percentil_de (scores_hist ?ctx) (score_raw_de z_consumo z_agua z_co2)"
  let ?p = "round2 (?pc * 100)"
  have b: "0 \<le> ?p \<and> ?p \<le> 100"
    using percentil_de_bounds[of "scores_hist ?ctx" "score_raw_de z_consumo z_agua z_co2"]
    by (intro round2_pct_bounds) simp_all
  have k: "\<exists>k::int. ?p = of_int k / 100" by (auto simp: round2_def)
  have raw: "score_raw_de z_consumo z_agua z_co2 = spec_raw_of ?ctx e w c"
    using z by (simp add: score_robusto_num score_raw_de_spec spec_raw_of_def)
  show "\<exists>nivel p s causas.
         detectar_anomalia_evento df_ref ts h (PyNum e) (PyNum w) (PyNum c) =
           Inr [(''timestamp'', DStr ts), (''nivel'', DStr nivel), (''percentil'', DNum (Fin p)),
                (''score'', DNum s), (''explicacion'', DList causas)] \<and>
         nivel \<in> {''Normal'', ''Alerta'', Critica} \<and>
         0 \<le> p \<and> p \<le> 100 \<and> (\<exists>k::int. p = of_int k / 100) \<and>
         s = fl_round2 (log1p (spec_raw_of (contexto_de df_ref h) e w c)) \<and>
         (s = NaN \<or> (\<exists>k::int. s = Fin (of_int k / 100) \<and> 0 \<le> k)) \<and>
         causas \<noteq> []"
    using d b k nivel_evento_cases causas_de_nonempty score_2dec[of ?ctx e w c]
    unfolding raw by blast
qed

theorem context_size_boundary_witness:
  "length (contexto_de tabla49 12) = 49 \<and>
   detectar_anomalia_evento tabla49 ''2025-06-24 12:00'' 12
       (PyNum (Fin 7200)) (PyNum (Fin 180000)) (PyNum (Fin 1600)) =
     Inr [(''nivel'', DStr ''Normal''), (''mensaje'', DStr mensaje_insuficiente)] \<and>
   length (contexto_de tabla50 12) = 50 \<and>
   (\<exists>nivel p s causas.
      detectar_anomalia_evento tabla50 ''2025-06-24 12:00'' 12
          (PyNum (Fin 7200)) (PyNum (Fin 180000)) (PyNum (Fin 1600)) =
        Inr [(''timestamp'', DStr ''2025-06-24 12:00''), (''nivel'', DStr nivel),
             (''percentil'', DNum (Fin p)), (''score'', DNum s), (''explicacion'', DList causas)] \<and>
      nivel \<in> {''Normal'', ''Alerta'', Critica} \<and> 0 \<le> p \<and> p \<le> 100 \<and>
      (\<exists>k::int. p = of_int k / 100) \<and>
      (s = NaN \<or> (\<exists>k::int. s = Fin (of_int k / 100) \<and> 0 \<le> k)) \<and> causas \<noteq> [])"
proof -
  have l49: "length (contexto_de tabla49 12) = 49" by (simp add: ctx_tabla49)
  have l50: "length (contexto_de tabla50 12) = 50" by (simp add: ctx_tabla50)
  have a: "detectar_anomalia_evento tabla49 ''2025-06-24 12:00'' 12
       (PyNum (Fin 7200)) (PyNum (Fin 180000)) (PyNum (Fin 1600)) =
     Inr [(''nivel'', DStr ''Normal''), (''mensaje'', DStr mensaje_insuficiente)]"
    using context_size_boundary[where df_ref = tabla49 and h = 12] l49 by simp
  have b: "\<exists>nivel p s causas.
      detectar_anomalia_evento tabla50 ''2025-06-24 12:00'' 12
          (PyNum (Fin 7200)) (PyNum (Fin 180000)) (PyNum (Fin 1600)) =
        Inr [(''timestamp'', DStr ''2025-06-24 12:00''), (''nivel'', DStr nivel),
             (''percentil'', DNum (Fin p)), (''score'', DNum s), (''explicacion'', DList causas)] \<and>
      nivel \<in> {''Normal'', ''Alerta'', Critica} \<and> 0 \<le> p \<and> p \<le> 100 \<and>
      (\<exists>k::int. p = of_int k / 100) \<and>
      (s = NaN \<or> (\<exists>k::int. s = Fin (of_int k / 100) \<and> 0 \<le> k)) \<and> causas \<noteq> []"
    using context_size_boundary[where df_ref = tabla50 and h = 12 and ts = "''2025-06-24 12:00''"
        and e = "Fin 7200" and w = "Fin 180000" and c = "Fin 1600"] l50
    by simp blast
  show ?thesis using l49 l50 a b by blast
qed

text \<open>
  C5 (as amended). The event function does not validate the candidate's signals.
  With fewer than 50 readings at the candidate's hour it returns the
  insufficient-data result whatever the signals are, without an error. With at least
  50, a signal that is \<^verbatim>\<open>None\<close> or a string makes the subtraction raise
  \<^verbatim>\<open>TypeError\<close>, and a signal that is \<^verbatim>\<open>nan\<close> raises nothing: it propagates to a
  \<^verbatim>\<open>nan\<close> score, the percentile 0 and the tier \<^verbatim>\<open>Normal\<close>.
\<close>

theorem candidate_signals_not_validated:
  "(length (contexto_de df_ref h) < 50 \<longrightarrow>
      detectar_anomalia_evento df_ref ts h consumo agua co2 =
        Inr [(''nivel'', DStr ''Normal''), (''mensaje'', DStr mensaje_insuficiente)]) \<and>
   (50 \<le> length (contexto_de df_ref h) \<and>
    (\<not> es_numero consumo \<or> \<not> es_numero agua \<or> \<not> es_numero co2) \<longrightarrow>
      detectar_anomalia_evento df_ref ts h consumo agua co2 = Inl TypeError) \<and>
   (50 \<le> length (contexto_de df_ref h) \<and> (e = NaN \<or> w = NaN \<or> c = NaN) \<longrightarrow>
      (\<exists>causas. detectar_anomalia_evento df_ref ts h (PyNum e) (PyNum w) (PyNum c) =
        Inr [(''timestamp'', DStr ts), (''nivel'', DStr ''Normal''),
             (''percentil'', DNum (Fin 0)), (''score'', DNum NaN),
             (''explicacion'', DList causas)]))"
proof (intro conjI impI)
  assume "length (contexto_de df_ref h) < 50"
  then show "detectar_anomalia_evento df_ref ts h consumo agua co2 =
        Inr [(''nivel'', DStr ''Normal''), (''mensaje'', DStr mensaje_insuficiente)]"
    by (rule detectar_insuficiente)
next
  assume "50 \<le> length (contexto_de df_ref h) \<and>
    (\<not> es_numero consumo \<or> \<not> es_numero agua \<or> \<not> es_numero co2)"
  then show "detectar_anomalia_evento df_ref ts h consumo agua co2 = Inl TypeError"
    using detectar_TypeError by blast
next
  assume a: "50 \<le> length (contexto_de df_ref h) \<and> (e = NaN \<or> w = NaN \<or> c = NaN)"
  then have r: "spec_raw_of (contexto_de df_ref h) e w c = NaN" by (intro spec_raw_of_NaN) simp
  show "\<exists>causas. detectar_anomalia_evento df_ref ts h (PyNum e) (PyNum w) (PyNum c) =
        Inr [(''timestamp'', DStr ts), (''nivel'', DStr ''Normal''),
             (''percentil'', DNum (Fin 0)), (''score'', DNum NaN),
             (''explicacion'', DList causas)]"
    using a by (simp add: detectar_num r spec_percentile_NaN round2_0 nivel_evento_def)
qed

theorem candidate_signals_not_validated_witness:
  "length (contexto_de tabla49 12) < 50 \<and>
   detectar_anomalia_evento tabla49 ''2025-06-24 12:00'' 12 PyNone (PyStr ''alto'') (PyNum NaN) =
     Inr [(''nivel'', DStr ''Normal''), (''mensaje'', DStr mensaje_insuficiente)] \<and>
   50 \<le> length (contexto_de tabla60 12) \<and> \<not> es_numero PyNone \<and>
   detectar_anomalia_evento tabla60 ''2025-06-24 12:00'' 12
     PyNone (PyNum (Fin 180000)) (PyNum (Fin 1600)) = Inl TypeError \<and>
   (\<exists>causas. detectar_anomalia_evento tabla60 ''2025-06-24 12:00'' 12
       (PyNum NaN) (PyNum (Fin 180000)) (PyNum (Fin 1600)) =
        Inr [(''timestamp'', DStr ''2025-06-24 12:00''), (''nivel'', DStr ''Normal''),
             (''percentil'', DNum (Fin 0)), (''score'', DNum NaN),
             (''explicacion'', DList causas)])"
proof -
  have l49: "length (contexto_de tabla49 12) < 50" by (simp add: ctx_tabla49)
  have l60: "50 \<le> length (contexto_de tabla60 12)" by (simp add: ctx_tabla60)
  have a: "detectar_anomalia_evento tabla49 ''2025-06-24 12:00'' 12 PyNone (PyStr ''alto'') (PyNum NaN) =
     Inr [(''nivel'', DStr ''Normal''), (''mensaje'', DStr mensaje_insuficiente)]"
    using candidate_signals_not_validated[where df_ref = tabla49 and h = 12 and consumo = PyNone
        and agua = "PyStr ''alto''" and ?co2.0 = "PyNum NaN" and ts = "''2025-06-24 12:00''"
        and e = NaN and w = NaN and c = NaN] l49
    by simp
  note inst = candidate_signals_not_validated[where df_ref = tabla60 and h = 12 and consumo = PyNone
        and agua = "PyNum (Fin 180000)" and ?co2.0 = "PyNum (Fin 1600)"
        and ts = "''2025-06-24 12:00''" and e = NaN and w = "Fin 180000" and c = "Fin 1600"]
  have b: "detectar_anomalia_evento tabla60 ''2025-06-24 12:00'' 12
     PyNone (PyNum (Fin 180000)) (PyNum (Fin 1600)) = Inl TypeError"
    using inst l60 by simp
  have c: "\<exists>causas. detectar_anomalia_evento tabla60 ''2025-06-24 12:00'' 12
       (PyNum NaN) (PyNum (Fin 180000)) (PyNum (Fin 1600)) =
        Inr [(''timestamp'', DStr ''2025-06-24 12:00''), (''nivel'', DStr ''Normal''),
             (''percentil'', DNum (Fin 0)), (''score'', DNum NaN),
             (''explicacion'', DList causas)]"
    using inst l60 by simp
  show ?thesis using l49 l60 a b c by simp
qed

theorem candidate_signals_not_validated_counterexample:
  "detectar_anomalia_evento tabla49 ''2025-06-24 12:00'' 12 PyNone PyNone PyNone =
     Inr [(''nivel'', DStr ''Normal''), (''mensaje'', DStr mensaje_insuficiente)] \<and>
   detectar_anomalia_evento tabla60 ''2025-06-24 12:00'' 12
       (PyNum NaN) (PyNum (Fin 100000)) (PyNum (Fin 900)) =
     Inr [(''timestamp'', DStr ''2025-06-24 12:00''), (''nivel'', DStr ''Normal''),
          (''percentil'', DNum (Fin 0)), (''score'', DNum NaN),
          (''explicacion'', DList [causa_combinada])]"
proof -
  have l49: "length (contexto_de tabla49 12) < 50" by (simp add: ctx_tabla49)
  have l60: "50 \<le> length (contexto_de tabla60 12)" by (simp add: ctx_tabla60)
  have r: "spec_raw_of (contexto_de tabla60 12) NaN (Fin 100000) (Fin 900) = NaN"
    by (rule spec_raw_of_NaN) simp
  have d1: "\<not> fl_gt (spec_deviation NaN (map consumo_kwh (contexto_de tabla60 12))) (Fin 3)"
    by (simp add: spec_deviation_def)
  have d2: "\<not> fl_gt (spec_deviation (Fin 100000) (map agua_litros (contexto_de tabla60 12))) (Fin 3)"
    unfolding ctx_tabla60 by (subst desv_mediodia(2)) simp_all
  have d3: "\<not> fl_gt (spec_deviation (Fin 900) (map co2_kg (contexto_de tabla60 12))) (Fin 3)"
    unfolding ctx_tabla60 by (subst desv_mediodia(3)) simp_all
  show ?thesis
    unfolding detectar_insuficiente[OF l49] detectar_num[OF l60] r causas_de_ninguna[OF d1 d2 d3]
    by (simp add: spec_percentile_NaN round2_0 nivel_evento_def)
qed

text \<open>
  C6. The batch path on a night group whose energy quartiles coincide (four readings
  of 1200 kWh and one of 1500 kWh): the reading of 1500 kWh differs from the median
  1200, yet its z-score is \<^verbatim>\<open>nan\<close>, not a large finite number, because the zero
  interquartile range is replaced by \<^verbatim>\<open>nan\<close> before \<open>1e-6\<close> is added. The event
  path's \<^verbatim>\<open>score_robusto\<close> on the same column and value gives \<open>300 / 1e-6\<close>.
\<close>

theorem batch_epsilon_guard_lost:
  "grupo consumo_kwh tabla_plana (tabla_plana ! 4) =
     [Fin 1200, Fin 1200, Fin 1200, Fin 1200, Fin 1500] \<and>
   consumo_kwh (tabla_plana ! 4) = Fin 1500 \<and>
   median [Fin 1200, Fin 1200, Fin 1200, Fin 1200, Fin 1500] = Fin 1200 \<and>
   fl_sub (quantile 0.75 [Fin 1200, Fin 1200, Fin 1200, Fin 1200, Fin 1500])
          (quantile 0.25 [Fin 1200, Fin 1200, Fin 1200, Fin 1200, Fin 1500]) = Fin 0 \<and>
   consumo_kwh_z (batch tabla_plana ! 4) = NaN \<and>
   nivel_anomalia (batch tabla_plana ! 4) = Critica \<and>
   score_robusto (PyNum (Fin 1500)) [Fin 1200, Fin 1200, Fin 1200, Fin 1200, Fin 1500] =
     Inr (Fin 300000000)"
proof -
  have l: "4 < length tabla_plana" by (simp add: tabla_plana_def)
  have g: "grupo consumo_kwh tabla_plana (tabla_plana ! 4) =
             [Fin 1200, Fin 1200, Fin 1200, Fin 1200, Fin 1500]"
    by (rule grupo_plana) simp
  have v: "consumo_kwh (tabla_plana ! 4) = Fin 1500" by (simp add: tabla_plana_def r_noche_def)
  have q: "fl_sub (quantile 0.75 [Fin 1200, Fin 1200, Fin 1200, Fin 1200, Fin 1500])
          (quantile 0.25 [Fin 1200, Fin 1200, Fin 1200, Fin 1200, Fin 1500]) = Fin 0"
    unfolding stats_plana by simp
  have z: "z_batch consumo_kwh tabla_plana (tabla_plana ! 4) = NaN"
    by (rule z_batch_iqr0) (simp only: g q)
  have raw: "anomalia_score_raw_de tabla_plana (tabla_plana ! 4) = NaN"
    by (rule raw_batch_NaN) (simp add: z)
  have pc: "anomalia_percentil_de tabla_plana (tabla_plana ! 4) = NaN"
    by (simp add: anomalia_percentil_de_def anomalia_score_de_def raw rank_pct_def)
  have zf: "consumo_kwh_z (batch tabla_plana ! 4) = NaN"
    unfolding batch_nth[OF l] by (simp add: fila_de_def z)
  have nv: "nivel_anomalia (batch tabla_plana ! 4) = Critica"
    unfolding batch_nth[OF l] by (simp add: fila_de_def pc clasificar_NaN)
  have ev: "score_robusto (PyNum (Fin 1500)) [Fin 1200, Fin 1200, Fin 1200, Fin 1200, Fin 1500] =
     Inr (Fin 300000000)"
    by (subst score_robusto_iqr_cero[OF stats_plana(1) q]) simp
  show ?thesis using g v q zf nv ev stats_plana(1) by blast
qed

text \<open>
  C7. With a sufficient context, a signal's cause string is in the list of causes
  exactly when that signal's deviation exceeds 3. If only the energy deviation
  exceeds 3, the list is exactly the energy cause; if no deviation exceeds 3, the
  list is exactly the cause of atypical combined behaviour.
\<close>

theorem cause_attribution:
  assumes "50 \<le> length (contexto_de df_ref h)"
  shows "\<exists>res causas.
           detectar_anomalia_evento df_ref ts h (PyNum e) (PyNum w) (PyNum c) = Inr res \<and>
           map_of res ''explicacion'' = Some (DList causas) \<and>
           (causa_consumo \<in> set causas \<longleftrightarrow>
              fl_gt (spec_deviation e (map consumo_kwh (contexto_de df_ref h))) (Fin 3)) \<and>
           (causa_agua \<in> set causas \<longleftrightarrow>
              fl_gt (spec_deviation w (map agua_litros (contexto_de df_ref h))) (Fin 3)) \<and>
           (causa_co2 \<in> set causas \<longleftrightarrow>
              fl_gt (spec_deviation c (map co2_kg (contexto_de df_ref h))) (Fin 3)) \<and>
           (causa_combinada \<in> set causas \<longleftrightarrow>
              \<not> fl_gt (spec_deviation e (map consumo_kwh (contexto_de df_ref h))) (Fin 3) \<and>
              \<not> fl_gt (spec_deviation w (map agua_litros (contexto_de df_ref h))) (Fin 3) \<and>
              \<not> fl_gt (spec_deviation c (map co2_kg (contexto_de df_ref h))) (Fin 3)) \<and>
           set causas \<subseteq> {causa_consumo, causa_agua, causa_co2, causa_combinada} \<and>
           (fl_gt (spec_deviation e (map consumo_kwh (contexto_de df_ref h))) (Fin 3) \<and>
            \<not> fl_gt (spec_deviation w (map agua_litros (contexto_de df_ref h))) (Fin 3) \<and>
            \<not> fl_gt (spec_deviation c (map co2_kg (contexto_de df_ref h))) (Fin 3)
              \<longrightarrow> causas = [causa_consumo]) \<and>
           (\<not> fl_gt (spec_deviation e (map consumo_kwh (contexto_de df_ref h))) (Fin 3) \<and>
            \<not> fl_gt (spec_deviation w (map agua_litros (contexto_de df_ref h))) (Fin 3) \<and>
            \<not> fl_gt (spec_deviation c (map co2_kg (contexto_de df_ref h))) (Fin 3)
              \<longrightarrow> causas = [causa_combinada])"
proof -
  let ?a = "spec_deviation e (map consumo_kwh (contexto_de df_ref h))"
  let ?b = "spec_deviation w (map agua_litros (contexto_de df_ref h))"
  let ?c = "spec_deviation c (map co2_kg (contexto_de df_ref h))"
  have sub: "set (causas_de ?a ?b ?c) \<subseteq> {causa_consumo, causa_agua, causa_co2, causa_combinada}"
    by (auto simp: causas_de_def Let_def)
  show ?thesis
    using causas_de_iff[of ?a ?b ?c] causas_de_solo_consumo[of ?a ?b ?c]
      causas_de_ninguna[of ?a ?b ?c] sub
    by (simp add: detectar_num[OF assms])
qed

theorem cause_attribution_witness:
  "50 \<le> length (contexto_de tabla60 12) \<and>
   fl_gt (spec_deviation (Fin 7200) (map consumo_kwh (contexto_de tabla60 12))) (Fin 3) \<and>
   \<not> fl_gt (spec_deviation (Fin 100000) (map agua_litros (contexto_de tabla60 12))) (Fin 3) \<and>
   \<not> fl_gt (spec_deviation (Fin 900) (map co2_kg (contexto_de tabla60 12))) (Fin 3) \<and>
   (\<exists>res. detectar_anomalia_evento tabla60 ''2025-06-24 12:00'' 12
             (PyNum (Fin 7200)) (PyNum (Fin 100000)) (PyNum (Fin 900)) = Inr res \<and>
          map_of res ''explicacion'' = Some (DList [causa_consumo])) \<and>
   \<not> fl_gt (spec_deviation (Fin 5005) (map consumo_kwh (contexto_de tabla60 12))) (Fin 3) \<and>
   (\<exists>res. detectar_anomalia_evento tabla60 ''2025-06-25 12:00'' 12
             (PyNum (Fin 5005)) (PyNum (Fin 100000)) (PyNum (Fin 900)) = Inr res \<and>
          map_of res ''explicacion'' = Some (DList [causa_combinada]))"
proof -
  have l: "50 \<le> length (contexto_de tabla60 12)" by (simp add: ctx_tabla60)
  have e1: "fl_gt (spec_deviation (Fin 7200) (map consumo_kwh (contexto_de tabla60 12))) (Fin 3)"
    unfolding ctx_tabla60 by (subst desv_mediodia(1)) simp_all
  have e2: "\<not> fl_gt (spec_deviation (Fin 5005) (map consumo_kwh (contexto_de tabla60 12))) (Fin 3)"
    unfolding ctx_tabla60 by (subst desv_mediodia(1)) simp_all
  have w: "\<not> fl_gt (spec_deviation (Fin 100000) (map agua_litros (contexto_de tabla60 12))) (Fin 3)"
    unfolding ctx_tabla60 by (subst desv_mediodia(2)) simp_all
  have c: "\<not> fl_gt (spec_deviation (Fin 900) (map co2_kg (contexto_de tabla60 12))) (Fin 3)"
    unfolding ctx_tabla60 by (subst desv_mediodia(3)) simp_all
  have a: "\<exists>res. detectar_anomalia_evento tabla60 ''2025-06-24 12:00'' 12
             (PyNum (Fin 7200)) (PyNum (Fin 100000)) (PyNum (Fin 900)) = Inr res \<and>
          map_of res ''explicacion'' = Some (DList [causa_consumo])"
    using cause_attribution[OF l, of "''2025-06-24 12:00''" "Fin 7200" "Fin 100000" "Fin 900"] e1 w c
    by auto
  have b: "\<exists>res. detectar_anomalia_evento tabla60 ''2025-06-25 12:00'' 12
             (PyNum (Fin 5005)) (PyNum (Fin 100000)) (PyNum (Fin 900)) = Inr res \<and>
          map_of res ''explicacion'' = Some (DList [causa_combinada])"
    using cause_attribution[OF l, of "''2025-06-25 12:00''" "Fin 5005" "Fin 100000" "Fin 900"] e2 w c
    by auto
  show ?thesis using l e1 e2 w c a b by blast
qed

text \<open>
  C8. Against a fixed context of at least 50 readings, a candidate whose raw score is
  strictly larger than another candidate's gets a percentile that is at least the
  other's, both before rounding and in the returned result.
\<close>

theorem percentile_monotone_in_raw_score:
  assumes "50 \<le> length (contexto_de df_ref h)"
      and "fl_lt (spec_raw_of (contexto_de df_ref h) e_b w_b c_b)
                 (spec_raw_of (contexto_de df_ref h) e_a w_a c_a)"
  shows "spec_percentile (contexto_de df_ref h) (spec_raw_of (contexto_de df_ref h) e_b w_b c_b)
           \<le> spec_percentile (contexto_de df_ref h) (spec_raw_of (contexto_de df_ref h) e_a w_a c_a) \<and>
         (\<exists>res_a res_b p_a p_b.
            detectar_anomalia_evento df_ref ts_a h (PyNum e_a) (PyNum w_a) (PyNum c_a) = Inr res_a \<and>
            detectar_anomalia_evento df_ref ts_b h (PyNum e_b) (PyNum w_b) (PyNum c_b) = Inr res_b \<and>
            map_of res_a ''percentil'' = Some (DNum (Fin p_a)) \<and>
            map_of res_b ''percentil'' = Some (DNum (Fin p_b)) \<and>
            p_b \<le> p_a)"
proof -
  let ?ctx = "contexto_de df_ref h"
  have m: "spec_percentile ?ctx (spec_raw_of ?ctx e_b w_b c_b)
             \<le> spec_percentile ?ctx (spec_raw_of ?ctx e_a w_a c_a)"
    using percentil_de_mono[OF assms(2), of "scores_hist ?ctx"] by (simp add: percentil_de_spec)
  then have "round2 (spec_percentile ?ctx (spec_raw_of ?ctx e_b w_b c_b) * 100)
             \<le> round2 (spec_percentile ?ctx (spec_raw_of ?ctx e_a w_a c_a) * 100)"
    by (intro round2_mono) simp
  then show ?thesis using m by (simp add: detectar_num[OF assms(1)])
qed

theorem percentile_monotone_in_raw_score_witness:
  "50 \<le> length (contexto_de tabla60 12) \<and>
   fl_lt (spec_raw_of (contexto_de tabla60 12) (Fin 5005) (Fin 100000) (Fin 900))
         (spec_raw_of (contexto_de tabla60 12) (Fin 7200) (Fin 180000) (Fin 1600)) \<and>
   spec_percentile (contexto_de tabla60 12)
       (spec_raw_of (contexto_de tabla60 12) (Fin 5005) (Fin 100000) (Fin 900))
     \<le> spec_percentile (contexto_de tabla60 12)
       (spec_raw_of (contexto_de tabla60 12) (Fin 7200) (Fin 180000) (Fin 1600)) \<and>
   (\<exists>res_a res_b p_a p_b.
      detectar_anomalia_evento tabla60 ''2025-06-24 12:00'' 12
        (PyNum (Fin 7200)) (PyNum (Fin 180000)) (PyNum (Fin 1600)) = Inr res_a \<and>
      detectar_anomalia_evento tabla60 ''2025-06-25 12:00'' 12
        (PyNum (Fin 5005)) (PyNum (Fin 100000)) (PyNum (Fin 900)) = Inr res_b \<and>
      map_of res_a ''percentil'' = Some (DNum (Fin p_a)) \<and>
      map_of res_b ''percentil'' = Some (DNum (Fin p_b)) \<and>
      p_b \<le> p_a)"
proof -
  have l: "50 \<le> length (contexto_de tabla60 12)" by (simp add: ctx_tabla60)
  have lt: "fl_lt (spec_raw_of (contexto_de tabla60 12) (Fin 5005) (Fin 100000) (Fin 900))
         (spec_raw_of (contexto_de tabla60 12) (Fin 7200) (Fin 180000) (Fin 1600))"
    unfolding ctx_tabla60 by (simp add: raw_mediodia)
  show ?thesis
    using l lt percentile_monotone_in_raw_score[OF l lt, of "''2025-06-24 12:00''" "''2025-06-25 12:00''"]
    by blast
qed

text \<open>
  C9. The insufficient-data result of the event function has only the keys \<^verbatim>\<open>nivel\<close>
  and \<^verbatim>\<open>mensaje\<close>; given to \<^verbatim>\<open>respuesta_chatbot\<close>, its tier is \<^verbatim>\<open>Normal\<close>, so the
  formatter reads \<^verbatim>\<open>resultado['timestamp']\<close> and raises \<^verbatim>\<open>KeyError\<close>. The formatter
  is therefore not total over the results of the event function.
\<close>

theorem insufficient_result_breaks_formatter:
  assumes "length (contexto_de df_ref h) < 50"
  shows "\<exists>res. detectar_anomalia_evento df_ref ts h consumo agua co2 = Inr res \<and>
           fst ` set res = {''nivel'', ''mensaje''} \<and>
           respuesta_chatbot res = Inl (KeyError ''timestamp'')"
  using detectar_insuficiente[OF assms, of ts consumo agua co2]
  by (auto simp: respuesta_chatbot_def getitem_def)

theorem insufficient_result_breaks_formatter_witness:
  "length (contexto_de tabla49 12) < 50 \<and>
   (\<exists>res. detectar_anomalia_evento tabla49 ''2025-06-24 12:00'' 12
             (PyNum (Fin 7200)) (PyNum (Fin 180000)) (PyNum (Fin 1600)) = Inr res \<and>
          fst ` set res = {''nivel'', ''mensaje''} \<and>
          respuesta_chatbot res = Inl (KeyError ''timestamp''))"
proof -
  have h: "length (contexto_de tabla49 12) < 50" by (simp add: ctx_tabla49)
  show ?thesis using h insufficient_result_breaks_formatter[OF h] by blast
qed

text \<open>
  C10. In the batch path, a row whose hour group has interquartile range 0 for some
  signal gets \<^verbatim>\<open>nan\<close> as that signal's z-score, because the zero is replaced by
  \<^verbatim>\<open>nan\<close> before \<open>1e-6\<close> is added; its composite score, its log score and its
  percentile are \<^verbatim>\<open>nan\<close> as well, and \<^verbatim>\<open>clasificar_anomalia\<close> maps the \<^verbatim>\<open>nan\<close>
  percentile to \<^verbatim>\<open>Critica\<close>, since it is neither below 0.90 nor below 0.97.
\<close>

theorem batch_zero_iqr_nan_critica:
  assumes "i < length results"
      and "fl_sub (quantile 0.75 (grupo consumo_kwh results (results ! i)))
                  (quantile 0.25 (grupo consumo_kwh results (results ! i))) = Fin 0 \<or>
           fl_sub (quantile 0.75 (grupo agua_litros results (results ! i)))
                  (quantile 0.25 (grupo agua_litros results (results ! i))) = Fin 0 \<or>
           fl_sub (quantile 0.75 (grupo co2_kg results (results ! i)))
                  (quantile 0.25 (grupo co2_kg results (results ! i))) = Fin 0"
  shows "(fl_sub (quantile 0.75 (grupo consumo_kwh results (results ! i)))
                 (quantile 0.25 (grupo consumo_kwh results (results ! i))) = Fin 0
            \<longrightarrow> consumo_kwh_z (batch results ! i) = NaN) \<and>
         (fl_sub (quantile 0.75 (grupo agua_litros results (results ! i)))
                 (quantile 0.25 (grupo agua_litros results (results ! i))) = Fin 0
            \<longrightarrow> agua_litros_z (batch results ! i) = NaN) \<and>
         (fl_sub (quantile 0.75 (grupo co2_kg results (results ! i)))
                 (quantile 0.25 (grupo co2_kg results (results ! i))) = Fin 0
            \<longrightarrow> co2_kg_z (batch results ! i) = NaN) \<and>
         anomalia_score_raw (batch results ! i) = NaN \<and>
         anomalia_score (batch results ! i) = NaN \<and>
         anomalia_percentil (batch results ! i) = NaN \<and>
         \<not> fl_lt (anomalia_percentil (batch results ! i)) (Fin 0.90) \<and>
         \<not> fl_lt (anomalia_percentil (batch results ! i)) (Fin 0.97) \<and>
         nivel_anomalia (batch results ! i) = Critica"
proof -
  let ?r = "results ! i"
  have f: "consumo_kwh_z (fila_de results ?r) = z_batch consumo_kwh results ?r"
    "agua_litros_z (fila_de results ?r) = z_batch agua_litros results ?r"
    "co2_kg_z (fila_de results ?r) = z_batch co2_kg results ?r"
    "anomalia_score_raw (fila_de results ?r) = anomalia_score_raw_de results ?r"
    "anomalia_score (fila_de results ?r) = anomalia_score_de results ?r"
    "anomalia_percentil (fila_de results ?r) = anomalia_percentil_de results ?r"
    "nivel_anomalia (fila_de results ?r) = clasificar_anomalia (anomalia_percentil_de results ?r)"
    by (simp_all add: fila_de_def)
  have z: "z_batch consumo_kwh results ?r = NaN \<or> z_batch agua_litros results ?r = NaN \<or>
           z_batch co2_kg results ?r = NaN"
    using assms(2) z_batch_iqr0 by blast
  have raw: "anomalia_score_raw_de results ?r = NaN" using z by (rule raw_batch_NaN)
  then have sc: "anomalia_score_de results ?r = NaN" by (simp add: anomalia_score_de_def)
  then have pc: "anomalia_percentil_de results ?r = NaN"
    by (simp add: anomalia_percentil_de_def rank_pct_def)
  have lt: "\<not> fl_lt NaN (Fin 0.90)" "\<not> fl_lt NaN (Fin 0.97)" by simp_all
  show ?thesis
    unfolding batch_nth[OF assms(1)] f raw sc pc clasificar_NaN
    using z_batch_iqr0 lt by blast
qed

theorem batch_zero_iqr_nan_critica_witness:
  "0 < length tabla_plana \<and>
   fl_sub (quantile 0.75 (grupo consumo_kwh tabla_plana (tabla_plana ! 0)))
          (quantile 0.25 (grupo consumo_kwh tabla_plana (tabla_plana ! 0))) = Fin 0 \<and>
   consumo_kwh (tabla_plana ! 0) = median (grupo consumo_kwh tabla_plana (tabla_plana ! 0)) \<and>
   consumo_kwh_z (batch tabla_plana ! 0) = NaN \<and>
   anomalia_score_raw (batch tabla_plana ! 0) = NaN \<and>
   anomalia_score (batch tabla_plana ! 0) = NaN \<and>
   anomalia_percentil (batch tabla_plana ! 0) = NaN \<and>
   nivel_anomalia (batch tabla_plana ! 0) = Critica"
proof -
  have l: "0 < length tabla_plana" by (simp add: tabla_plana_def)
  have g: "grupo consumo_kwh tabla_plana (tabla_plana ! 0) =
             [Fin 1200, Fin 1200, Fin 1200, Fin 1200, Fin 1500]"
    by (rule grupo_plana) simp
  have q: "fl_sub (quantile 0.75 (grupo consumo_kwh tabla_plana (tabla_plana ! 0)))
          (quantile 0.25 (grupo consumo_kwh tabla_plana (tabla_plana ! 0))) = Fin 0"
    unfolding g stats_plana by simp
  have m: "consumo_kwh (tabla_plana ! 0) = median (grupo consumo_kwh tabla_plana (tabla_plana ! 0))"
    unfolding g stats_plana by (simp add: tabla_plana_def r_noche_def)
  show ?thesis
    using l q m batch_zero_iqr_nan_critica[OF l disjI1[OF q]] by blast
qed

end
